theory Spec2Isabelle
  imports Complex_Main "HOL-Library.AList"
begin

section \<open>NodeDB: values of the host language\<close>

text \<open>
  The engine is JavaScript. A value is \<open>undefined\<close>, \<open>null\<close>, a boolean, a number, a
  string, an array or a plain object. Numbers are modelled by exact rationals plus the
  three non-finite doubles; rounding, overflow and negative zero are not represented.
  An object is the list of its own properties in insertion order (the host lists
  integer-like keys first; the model keeps plain insertion order). Members inherited
  from the prototypes (methods such as \<open>toString\<close>) are not values of the model, so a
  field name is taken not to name one of them.

  Values are modelled by their content: two occurrences of the same content are not
  told apart. The one place of the program that changes an array in place while a second
  reference to it is live is \<open>update\<close> with \<open>$push\<close>; its model records which
  object holds each array of the document and carries the change over to the holder.
\<close>

datatype jsval =
    VUndef
  | VNull
  | VBool bool
  | VNum rat
  | VPosInf
  | VNegInf
  | VNaN
  | VStr string
  | VArr "jsval list"
  | VObj "(string \<times> jsval) list"

type_synonym obj = "(string \<times> jsval) list"

datatype error =
    DuplicateKey string
  | TypeError
  | SyntaxError

text \<open>
  Built-ins of the host whose result the engine only passes on. They are parameters of
  the model: every general theorem below holds for each choice of them.
\<close>

record host =
  JSON_stringify :: "jsval \<Rightarrow> string"
  object_to_string :: "jsval \<Rightarrow> string"
  number_to_string :: "jsval \<Rightarrow> string"
  string_to_number :: "string \<Rightarrow> jsval"
  regex_test :: "jsval \<Rightarrow> jsval \<Rightarrow> bool option"

fun truthy :: "jsval \<Rightarrow> bool" where
  "truthy VUndef = False"
| "truthy VNull = False"
| "truthy (VBool b) = b"
| "truthy (VNum x) = (x \<noteq> 0)"
| "truthy VPosInf = True"
| "truthy VNegInf = True"
| "truthy VNaN = False"
| "truthy (VStr s) = (s \<noteq> [])"
| "truthy (VArr xs) = True"
| "truthy (VObj kvs) = True"

text \<open>\<open>a || b\<close>\<close>

definition js_or :: "jsval \<Rightarrow> jsval \<Rightarrow> jsval" where
  "js_or a b = (if truthy a then a else b)"

fun is_primitive :: "jsval \<Rightarrow> bool" where
  "is_primitive (VArr xs) = False"
| "is_primitive (VObj kvs) = False"
| "is_primitive v = True"

subsection \<open>Decimal index strings\<close>

definition is_digit :: "char \<Rightarrow> bool" where
  "is_digit c = (48 \<le> (of_char c :: nat) \<and> (of_char c :: nat) \<le> 57)"

definition digit_val :: "char \<Rightarrow> nat" where
  "digit_val c = (of_char c :: nat) - 48"

text \<open>An array index as a property key: decimal digits without a leading zero.\<close>

definition array_index :: "string \<Rightarrow> nat option" where
  "array_index s =
     (if s \<noteq> [] \<and> list_all is_digit s \<and> (length s = 1 \<or> hd s \<noteq> CHR ''0'')
      then Some (foldl (\<lambda>n c. 10 * n + digit_val c) 0 s) else None)"

fun show_nat :: "nat \<Rightarrow> string" where
  "show_nat n =
     (if n < 10 then [char_of (48 + n)]
      else show_nat (n div 10) @ [char_of (48 + n mod 10)])"

subsection \<open>Property access\<close>

text \<open>\<open>obj[key]\<close> on a plain object: the own property, else \<open>undefined\<close>.\<close>

definition obj_get :: "obj \<Rightarrow> string \<Rightarrow> jsval" where
  "obj_get ob k = (case map_of ob k of None \<Rightarrow> VUndef | Some v \<Rightarrow> v)"

text \<open>\<open>obj[key] = v\<close>: an existing property keeps its place, a new one goes last.\<close>

definition obj_set :: "obj \<Rightarrow> string \<Rightarrow> jsval \<Rightarrow> obj" where
  "obj_set ob k v = AList.update k v ob"

text \<open>\<open>delete obj[key]\<close>\<close>

definition obj_delete :: "obj \<Rightarrow> string \<Rightarrow> obj" where
  "obj_delete ob k = AList.delete k ob"

text \<open>
  \<open>v[key]\<close> on any value that is neither \<open>undefined\<close> nor \<open>null\<close>: arrays and strings
  answer to indices and to \<open>length\<close>.
\<close>

fun js_get :: "jsval \<Rightarrow> string \<Rightarrow> jsval" where
  "js_get (VObj kvs) k = obj_get kvs k"
| "js_get (VArr xs) k =
     (if k = ''length'' then VNum (of_nat (length xs))
      else (case array_index k of
              Some i \<Rightarrow> (if i < length xs then xs ! i else VUndef)
            | None \<Rightarrow> VUndef))"
| "js_get (VStr s) k =
     (if k = ''length'' then VNum (of_nat (length s))
      else (case array_index k of
              Some i \<Rightarrow> (if i < length s then VStr [s ! i] else VUndef)
            | None \<Rightarrow> VUndef))"
| "js_get v k = VUndef"

text \<open>\<open>path.split('.')\<close>\<close>

fun split_on :: "char \<Rightarrow> string \<Rightarrow> string list" where
  "split_on c [] = [[]]"
| "split_on c (x # xs) =
     (if x = c then [] # split_on c xs
      else (case split_on c xs of
              w # ws \<Rightarrow> (x # w) # ws
            | [] \<Rightarrow> [[x]]))"

text \<open>
  \<open>getNestedValue\<close> of Index.js: the reduce over the path segments, starting from the
  document.
\<close>

definition nested_step :: "jsval \<Rightarrow> string \<Rightarrow> jsval" where
  "nested_step current key =
     (if truthy current \<and> js_get current key \<noteq> VUndef then js_get current key else VUndef)"

definition getNestedValue :: "obj \<Rightarrow> string \<Rightarrow> jsval" where
  "getNestedValue ob path = foldl nested_step (VObj ob) (split_on CHR ''.'' path)"

section \<open>Index\<close>

text \<open>
  \<open>indexData\<close> is a Map from the composite key to a Set of document ids; both keep
  insertion order. A Set is a list without repetition.
\<close>

record Index =
  ix_name :: string
  ix_collection :: string
  ix_fields :: "string list"
  ix_unique :: bool
  ix_sparse :: bool
  indexData :: "(string \<times> jsval list) list"

datatype operation = OpInsert | OpUpdate | OpDelete

definition set_add :: "jsval \<Rightarrow> jsval list \<Rightarrow> jsval list" where
  "set_add x xs = (if x \<in> set xs then xs else xs @ [x])"

definition set_delete :: "jsval \<Rightarrow> jsval list \<Rightarrow> jsval list" where
  "set_delete x xs = removeAll x xs"

definition map_has :: "('k \<times> 'v) list \<Rightarrow> 'k \<Rightarrow> bool" where
  "map_has m k = (map_of m k \<noteq> None)"

text \<open>\<open>Array.prototype.join\<close> on strings and \<open>null\<close>: \<open>null\<close> prints as nothing.\<close>

fun join_parts :: "string \<Rightarrow> string option list \<Rightarrow> string" where
  "join_parts sep [] = []"
| "join_parts sep [p] = (case p of None \<Rightarrow> [] | Some s \<Rightarrow> s)"
| "join_parts sep (p # q # ps) =
     (case p of None \<Rightarrow> [] | Some s \<Rightarrow> s) @ sep @ join_parts sep (q # ps)"

definition keyParts :: "host \<Rightarrow> Index \<Rightarrow> obj \<Rightarrow> string option list" where
  "keyParts h ix document =
     map (\<lambda>field. let v = getNestedValue document field
                  in if v \<noteq> VUndef then Some (JSON_stringify h v) else None)
         (ix_fields ix)"

text \<open>\<open>getIndexKey\<close>: \<open>None\<close> is the \<open>null\<close> key of a sparse index.\<close>

definition getIndexKey :: "host \<Rightarrow> Index \<Rightarrow> obj \<Rightarrow> string option" where
  "getIndexKey h ix document =
     (if ix_sparse ix \<and> list_ex (\<lambda>part. part = None) (keyParts h ix document) then None
      else Some (join_parts ''|'' (keyParts h ix document)))"

text \<open>
  The two steps shared by the branches of \<open>Index.update\<close>: adding an id under a key
  (creating the Set when the key is new) and removing an id from a key's Set (dropping
  the key when its Set becomes empty). The removal is reached only behind the source's
  test \<open>indexData.has(key)\<close>.
\<close>

definition index_add :: "string \<Rightarrow> jsval \<Rightarrow> (string \<times> jsval list) list \<Rightarrow> (string \<times> jsval list) list" where
  "index_add k i d =
     (let d1 = (if \<not> map_has d k then AList.update k [] d else d)
      in AList.update k (set_add i (the (map_of d1 k))) d1)"

definition index_remove :: "string \<Rightarrow> jsval \<Rightarrow> (string \<times> jsval list) list \<Rightarrow> (string \<times> jsval list) list" where
  "index_remove k i d =
     (let d1 = AList.update k (set_delete i (the (map_of d k))) d
      in if the (map_of d1 k) = [] then AList.delete k d1 else d1)"

text \<open>
  \<open>Index.update(document, operation, originalDoc)\<close>. The result is the error thrown,
  if any, and the index as the call leaves it: the \<open>update\<close> branch throws after it has
  taken the id out of the old key.
\<close>

definition Index_update :: "host \<Rightarrow> Index \<Rightarrow> obj \<Rightarrow> operation \<Rightarrow> obj option \<Rightarrow> error option \<times> Index" where
  "Index_update h ix document oper originalDoc =
     (let key = getIndexKey h ix document;
          originalKey = (case originalDoc of None \<Rightarrow> None | Some od \<Rightarrow> getIndexKey h ix od);
          ident = obj_get document ''_id''
      in case oper of
           OpInsert \<Rightarrow>
             (case key of
                None \<Rightarrow> (None, ix)
              | Some k \<Rightarrow>
                  if ix_unique ix \<and> map_has (indexData ix) k
                  then (Some (DuplicateKey (ix_name ix)), ix)
                  else (None, ix\<lparr>indexData := index_add k ident (indexData ix)\<rparr>))
         | OpUpdate \<Rightarrow>
             if originalKey \<noteq> key then
               (let d1 = (case originalKey of
                            None \<Rightarrow> indexData ix
                          | Some ok \<Rightarrow> if map_has (indexData ix) ok
                                       then index_remove ok ident (indexData ix)
                                       else indexData ix)
                in case key of
                     None \<Rightarrow> (None, ix\<lparr>indexData := d1\<rparr>)
                   | Some k \<Rightarrow>
                       if ix_unique ix \<and> map_has d1 k
                       then (Some (DuplicateKey (ix_name ix)), ix\<lparr>indexData := d1\<rparr>)
                       else (None, ix\<lparr>indexData := index_add k ident d1\<rparr>))
             else (None, ix)
         | OpDelete \<Rightarrow>
             (case key of
                None \<Rightarrow> (None, ix)
              | Some k \<Rightarrow>
                  if map_has (indexData ix) k
                  then (None, ix\<lparr>indexData := index_remove k ident (indexData ix)\<rparr>)
                  else (None, ix)))"

section \<open>Operators of the host language\<close>

text \<open>
  \<open>===\<close> and the \<open>SameValueZero\<close> test of \<open>Array.prototype.includes\<close>. On primitives
  they compare content (\<open>NaN\<close> is not \<open>===\<close> to itself). Arrays and objects are compared
  by identity in the host; the operands the engine compares come from different places
  (a query and a stored document, two stored documents), so they are different objects.
\<close>

definition strict_equal :: "jsval \<Rightarrow> jsval \<Rightarrow> bool" where
  "strict_equal a b = (is_primitive a \<and> a \<noteq> VNaN \<and> a = b)"

definition same_value_zero :: "jsval \<Rightarrow> jsval \<Rightarrow> bool" where
  "same_value_zero a b = (is_primitive a \<and> a = b)"

definition is_string :: "jsval \<Rightarrow> bool" where
  "is_string v = (case v of VStr s \<Rightarrow> True | _ \<Rightarrow> False)"

definition the_string :: "jsval \<Rightarrow> string" where
  "the_string v = (case v of VStr s \<Rightarrow> s | _ \<Rightarrow> [])"

definition is_array :: "jsval \<Rightarrow> bool" where
  "is_array v = (case v of VArr xs \<Rightarrow> True | _ \<Rightarrow> False)"

text \<open>\<open>typeof v === 'object'\<close>: arrays, plain objects and \<open>null\<close>.\<close>

definition typeof_object :: "jsval \<Rightarrow> bool" where
  "typeof_object v = (case v of VArr xs \<Rightarrow> True | VObj kvs \<Rightarrow> True | VNull \<Rightarrow> True | _ \<Rightarrow> False)"

text \<open>
  The conversions behind \<open><\<close>, \<open>+\<close> and \<open>/\<close>: an array or object becomes the string
  its \<open>toString\<close> gives; a primitive becomes a number or a string.
\<close>

definition to_primitive :: "host \<Rightarrow> jsval \<Rightarrow> jsval" where
  "to_primitive h v =
     (case v of
        VArr xs \<Rightarrow> VStr (object_to_string h v)
      | VObj kvs \<Rightarrow> VStr (object_to_string h v)
      | _ \<Rightarrow> v)"

fun prim_to_number :: "host \<Rightarrow> jsval \<Rightarrow> jsval" where
  "prim_to_number h VUndef = VNaN"
| "prim_to_number h VNull = VNum 0"
| "prim_to_number h (VBool b) = VNum (if b then 1 else 0)"
| "prim_to_number h (VStr s) = string_to_number h s"
| "prim_to_number h (VArr xs) = VNaN"
| "prim_to_number h (VObj kvs) = VNaN"
| "prim_to_number h v = v"

fun prim_to_string :: "host \<Rightarrow> jsval \<Rightarrow> string" where
  "prim_to_string h (VStr s) = s"
| "prim_to_string h VUndef = ''undefined''"
| "prim_to_string h VNull = ''null''"
| "prim_to_string h (VBool b) = (if b then ''true'' else ''false'')"
| "prim_to_string h v = number_to_string h v"

definition js_to_number :: "host \<Rightarrow> jsval \<Rightarrow> jsval" where
  "js_to_number h v = prim_to_number h (to_primitive h v)"

definition js_to_string :: "host \<Rightarrow> jsval \<Rightarrow> string" where
  "js_to_string h v = prim_to_string h (to_primitive h v)"

text \<open>Order and arithmetic on numbers; a comparison with \<open>NaN\<close> is false.\<close>

fun num_lt :: "jsval \<Rightarrow> jsval \<Rightarrow> bool" where
  "num_lt (VNum x) (VNum y) = (x < y)"
| "num_lt (VNum x) VPosInf = True"
| "num_lt VNegInf (VNum y) = True"
| "num_lt VNegInf VPosInf = True"
| "num_lt a b = False"

fun num_le :: "jsval \<Rightarrow> jsval \<Rightarrow> bool" where
  "num_le (VNum x) (VNum y) = (x \<le> y)"
| "num_le (VNum x) VPosInf = True"
| "num_le VNegInf (VNum y) = True"
| "num_le VNegInf VPosInf = True"
| "num_le VPosInf VPosInf = True"
| "num_le VNegInf VNegInf = True"
| "num_le a b = False"

fun num_add :: "jsval \<Rightarrow> jsval \<Rightarrow> jsval" where
  "num_add (VNum x) (VNum y) = VNum (x + y)"
| "num_add (VNum x) VPosInf = VPosInf"
| "num_add (VNum x) VNegInf = VNegInf"
| "num_add VPosInf (VNum y) = VPosInf"
| "num_add VNegInf (VNum y) = VNegInf"
| "num_add VPosInf VPosInf = VPosInf"
| "num_add VNegInf VNegInf = VNegInf"
| "num_add a b = VNaN"

fun num_div :: "jsval \<Rightarrow> jsval \<Rightarrow> jsval" where
  "num_div (VNum x) (VNum y) =
     (if y \<noteq> 0 then VNum (x / y)
      else if x = 0 then VNaN else if 0 < x then VPosInf else VNegInf)"
| "num_div (VNum x) VPosInf = VNum 0"
| "num_div (VNum x) VNegInf = VNum 0"
| "num_div VPosInf (VNum y) = (if 0 \<le> y then VPosInf else VNegInf)"
| "num_div VNegInf (VNum y) = (if 0 \<le> y then VNegInf else VPosInf)"
| "num_div a b = VNaN"

text \<open>Strings are ordered by their code units.\<close>

fun str_lt :: "string \<Rightarrow> string \<Rightarrow> bool" where
  "str_lt [] [] = False"
| "str_lt [] (y # ys) = True"
| "str_lt (x # xs) [] = False"
| "str_lt (x # xs) (y # ys) =
     (if (of_char x :: nat) < of_char y then True
      else if (of_char y :: nat) < of_char x then False
      else str_lt xs ys)"

text \<open>\<open>a < b\<close>, \<open>a <= b\<close>, \<open>a > b\<close>, \<open>a >= b\<close>\<close>

definition js_lt :: "host \<Rightarrow> jsval \<Rightarrow> jsval \<Rightarrow> bool" where
  "js_lt h a b =
     (let pa = to_primitive h a; pb = to_primitive h b
      in if is_string pa \<and> is_string pb then str_lt (the_string pa) (the_string pb)
         else num_lt (prim_to_number h pa) (prim_to_number h pb))"

definition js_le :: "host \<Rightarrow> jsval \<Rightarrow> jsval \<Rightarrow> bool" where
  "js_le h a b =
     (let pa = to_primitive h a; pb = to_primitive h b
      in if is_string pa \<and> is_string pb then \<not> str_lt (the_string pb) (the_string pa)
         else num_le (prim_to_number h pa) (prim_to_number h pb))"

definition js_gt :: "host \<Rightarrow> jsval \<Rightarrow> jsval \<Rightarrow> bool" where
  "js_gt h a b = js_lt h b a"

definition js_ge :: "host \<Rightarrow> jsval \<Rightarrow> jsval \<Rightarrow> bool" where
  "js_ge h a b = js_le h b a"

text \<open>\<open>a + b\<close>: concatenation when either side is a string, addition otherwise.\<close>

definition js_add :: "host \<Rightarrow> jsval \<Rightarrow> jsval \<Rightarrow> jsval" where
  "js_add h a b =
     (let pa = to_primitive h a; pb = to_primitive h b
      in if is_string pa \<or> is_string pb then VStr (prim_to_string h pa @ prim_to_string h pb)
         else num_add (prim_to_number h pa) (prim_to_number h pb))"

definition js_div :: "host \<Rightarrow> jsval \<Rightarrow> jsval \<Rightarrow> jsval" where
  "js_div h a b = num_div (js_to_number h a) (js_to_number h b)"

subsection \<open>Objects and arrays\<close>

text \<open>
  The own enumerable properties of a value, as \<open>Object.entries\<close>, \<open>Object.keys\<close> and
  \<open>Object.assign\<close> see them; the first two throw on \<open>undefined\<close> and \<open>null\<close>.
\<close>

fun own_entries :: "jsval \<Rightarrow> (string \<times> jsval) list" where
  "own_entries (VObj kvs) = kvs"
| "own_entries (VArr xs) = zip (map show_nat [0..<length xs]) xs"
| "own_entries (VStr s) = zip (map show_nat [0..<length s]) (map (\<lambda>c. VStr [c]) s)"
| "own_entries v = []"

definition object_entries :: "jsval \<Rightarrow> error + (string \<times> jsval) list" where
  "object_entries v = (if v = VUndef \<or> v = VNull then Inl TypeError else Inr (own_entries v))"

definition object_keys :: "jsval \<Rightarrow> error + string list" where
  "object_keys v = (if v = VUndef \<or> v = VNull then Inl TypeError else Inr (map fst (own_entries v)))"

definition object_assign :: "obj \<Rightarrow> jsval \<Rightarrow> obj" where
  "object_assign target source = foldl (\<lambda>t kv. obj_set t (fst kv) (snd kv)) target (own_entries source)"

text \<open>\<open>{...a, ...b}\<close>\<close>

definition spread2 :: "obj \<Rightarrow> obj \<Rightarrow> obj" where
  "spread2 a b = object_assign (object_assign [] (VObj a)) (VObj b)"

text \<open>\<open>arr.push(v)\<close> on a value known to be an array.\<close>

definition array_push :: "jsval \<Rightarrow> jsval \<Rightarrow> jsval" where
  "array_push arr v = (case arr of VArr xs \<Rightarrow> VArr (xs @ [v]) | _ \<Rightarrow> arr)"

definition array_includes :: "jsval list \<Rightarrow> jsval \<Rightarrow> bool" where
  "array_includes xs v = list_ex (same_value_zero v) xs"

fun is_prefix :: "string \<Rightarrow> string \<Rightarrow> bool" where
  "is_prefix [] ys = True"
| "is_prefix (x # xs) [] = False"
| "is_prefix (x # xs) (y # ys) = (x = y \<and> is_prefix xs ys)"

fun is_infix :: "string \<Rightarrow> string \<Rightarrow> bool" where
  "is_infix xs [] = (xs = [])"
| "is_infix xs (y # ys) = (is_prefix xs (y # ys) \<or> is_infix xs ys)"

text \<open>
  \<open>value.includes(docValue)\<close>: membership in an array, substring test on a string, a
  \<open>TypeError\<close> on anything else (no such method).
\<close>

definition js_includes :: "host \<Rightarrow> jsval \<Rightarrow> jsval \<Rightarrow> error + bool" where
  "js_includes h value docValue =
     (case value of
        VArr xs \<Rightarrow> Inr (array_includes xs docValue)
      | VStr s \<Rightarrow> Inr (is_infix (js_to_string h docValue) s)
      | _ \<Rightarrow> Inl TypeError)"

definition starts_with_dollar :: "string \<Rightarrow> bool" where
  "starts_with_dollar k = (case k of [] \<Rightarrow> False | c # cs \<Rightarrow> c = CHR ''$'')"

section \<open>Store and collection\<close>

text \<open>
  The store owns the collections (name to document Map, keyed by \<open>_id\<close> in insertion
  order), the indexes (name to Index) and the snapshot files. A snapshot file is
  represented by the JSON value its text denotes and is filed under the collection's
  name (the path is \<open><root>/collections/<name>.json\<close>). A collection handle is its
  name: \<open>db.collection(name)\<close> answers a name it does not know with an empty collection.

  A Map key that is an array or object is compared by content here; the host compares
  it by identity.
\<close>

record Database =
  collections :: "(string \<times> (jsval \<times> obj) list) list"
  indexes :: "(string \<times> Index) list"
  files :: "(string \<times> jsval) list"

text \<open>
  What a call reads from its environment: the identifier \<open>generateId()\<close> returns, the
  successive readings of the clock (\<open>new Date().toISOString()\<close>), and whether
  \<open>fs.writeFile\<close> succeeds.
\<close>

record env =
  uuid :: string
  now :: "nat \<Rightarrow> string"
  write_ok :: bool

definition documents :: "Database \<Rightarrow> string \<Rightarrow> (jsval \<times> obj) list" where
  "documents db name = (case map_of (collections db) name of None \<Rightarrow> [] | Some d \<Rightarrow> d)"

definition set_documents :: "string \<Rightarrow> (jsval \<times> obj) list \<Rightarrow> Database \<Rightarrow> Database" where
  "set_documents name d db = db\<lparr>collections := AList.update name d (collections db)\<rparr>"

subsection \<open>Snapshots\<close>

text \<open>
  The value that \<open>JSON.parse\<close> reads back from what \<open>JSON.stringify\<close> wrote: a property
  whose value is \<open>undefined\<close> is left out, an \<open>undefined\<close> array element and a non-finite
  number become \<open>null\<close>.
\<close>

fun to_json :: "jsval \<Rightarrow> jsval"
  and to_json_list :: "jsval list \<Rightarrow> jsval list"
  and to_json_fields :: "(string \<times> jsval) list \<Rightarrow> (string \<times> jsval) list" where
  "to_json (VArr xs) = VArr (to_json_list xs)"
| "to_json (VObj kvs) = VObj (to_json_fields kvs)"
| "to_json VPosInf = VNull"
| "to_json VNegInf = VNull"
| "to_json VNaN = VNull"
| "to_json VUndef = VUndef"
| "to_json VNull = VNull"
| "to_json (VBool b) = VBool b"
| "to_json (VNum x) = VNum x"
| "to_json (VStr s) = VStr s"
| "to_json_list [] = []"
| "to_json_list (x # xs) = (if x = VUndef then VNull else to_json x) # to_json_list xs"
| "to_json_fields [] = []"
| "to_json_fields (kv # kvs) =
     (if snd kv = VUndef then to_json_fields kvs
      else (fst kv, to_json (snd kv)) # to_json_fields kvs)"

text \<open>
  The values JSON can write: no \<open>undefined\<close> and no non-finite number, at any depth.
\<close>

fun json_value :: "jsval \<Rightarrow> bool"
  and json_values :: "jsval list \<Rightarrow> bool"
  and json_fields :: "(string \<times> jsval) list \<Rightarrow> bool" where
  "json_value (VArr xs) = json_values xs"
| "json_value (VObj kvs) = json_fields kvs"
| "json_value VNull = True"
| "json_value (VBool b) = True"
| "json_value (VNum x) = True"
| "json_value (VStr s) = True"
| "json_value VUndef = False"
| "json_value VPosInf = False"
| "json_value VNegInf = False"
| "json_value VNaN = False"
| "json_values [] = True"
| "json_values (x # xs) = (json_value x \<and> json_values xs)"
| "json_fields [] = True"
| "json_fields (kv # kvs) = (json_value (snd kv) \<and> json_fields kvs)"

text \<open>
  \<open>saveCollection\<close>: the whole document sequence is written again; a failed write is
  logged and swallowed. (A write that fails is taken to leave the file as it was.)
\<close>

definition saveCollection :: "env \<Rightarrow> string \<Rightarrow> Database \<Rightarrow> Database" where
  "saveCollection e collectionName db =
     (case map_of (collections db) collectionName of
        None \<Rightarrow> db
      | Some collection \<Rightarrow>
          if write_ok e
          then db\<lparr>files := AList.update collectionName
                               (to_json (VArr (map (\<lambda>kd. VObj (snd kd)) collection))) (files db)\<rparr>
          else db)"

text \<open>
  \<open>loadCollection\<close>: a missing file, or content that is not an array, ends in the
  \<open>catch\<close> branch with an empty Map. Only an object can have a truthy \<open>_id\<close>.
\<close>

definition load_doc :: "(jsval \<times> obj) list \<Rightarrow> jsval \<Rightarrow> (jsval \<times> obj) list" where
  "load_doc collectionMap doc =
     (if truthy doc \<and> truthy (js_get doc ''_id'')
      then (case doc of VObj ob \<Rightarrow> AList.update (js_get doc ''_id'') ob collectionMap
                      | _ \<Rightarrow> collectionMap)
      else collectionMap)"

definition loadCollection :: "string \<Rightarrow> Database \<Rightarrow> Database" where
  "loadCollection collectionName db =
     (case map_of (files db) collectionName of
        Some (VArr docs) \<Rightarrow> set_documents collectionName (foldl load_doc [] docs) db
      | _ \<Rightarrow> set_documents collectionName [] db)"

text \<open>
  \<open>loadCollections\<close> and a fresh store's \<open>connect()\<close>: every snapshot file is loaded;
  the index files are not read.
\<close>

definition loadCollections :: "Database \<Rightarrow> Database" where
  "loadCollections db = foldl (\<lambda>d name. loadCollection name d) db (map fst (files db))"

definition connect :: "(string \<times> jsval) list \<Rightarrow> Database" where
  "connect fs = loadCollections \<lparr>collections = [], indexes = [], files = fs\<rparr>"

text \<open>
  Two predicates used to state the properties of the snapshots. A document Map is well
  formed when every document is a JSON value filed under its own truthy \<open>_id\<close> and no
  key occurs twice; a collection is in step with its file when the file holds what
  \<open>saveCollection\<close> writes for the present documents.
\<close>

definition stored_ok :: "(jsval \<times> obj) list \<Rightarrow> bool" where
  "stored_ok docs =
     (distinct (map fst docs) \<and>
      list_all (\<lambda>kd. fst kd = obj_get (snd kd) ''_id'' \<and> truthy (fst kd) \<and> json_fields (snd kd)) docs)"

definition synced :: "string \<Rightarrow> Database \<Rightarrow> bool" where
  "synced name db =
     (map_of (files db) name = Some (to_json (VArr (map (\<lambda>kd. VObj (snd kd)) (documents db name)))))"

subsection \<open>Index maintenance\<close>

text \<open>
  \<open>updateIndexes\<close>: the loop over all indexes of the store, in Map order; an exception
  of \<open>Index.update\<close> leaves the loop, with the indexes visited so far already changed.
\<close>

fun updateIndexes :: "host \<Rightarrow> string \<Rightarrow> obj \<Rightarrow> operation \<Rightarrow> obj option \<Rightarrow> (string \<times> Index) list
      \<Rightarrow> error option \<times> (string \<times> Index) list" where
  "updateIndexes h cname document oper originalDoc [] = (None, [])"
| "updateIndexes h cname document oper originalDoc (ni # rest) =
     (if ix_collection (snd ni) = cname then
        (case Index_update h (snd ni) document oper originalDoc of
           (Some err, ix') \<Rightarrow> (Some err, (fst ni, ix') # rest)
         | (None, ix') \<Rightarrow>
             (case updateIndexes h cname document oper originalDoc rest of
                (r, rest') \<Rightarrow> (r, (fst ni, ix') # rest')))
      else (case updateIndexes h cname document oper originalDoc rest of
              (r, rest') \<Rightarrow> (r, ni # rest')))"

subsection \<open>Collection.insert\<close>

text \<open>
  The calls below are awaited one after the other, so the write queue is empty and idle
  when a call enters \<open>queueWrite\<close>, and the queued \<open>saveCollection\<close> runs before the call
  returns. Events emitted to subscribers are not modelled.
\<close>

text \<open>
  The head of \<open>insert\<close>: an \<open>_id\<close> that is missing or falsy is replaced by a generated
  one, and both timestamps are set.
\<close>

definition stamp_document :: "env \<Rightarrow> obj \<Rightarrow> obj" where
  "stamp_document e document =
     (let doc1 = (if \<not> truthy (obj_get document ''_id'')
                  then obj_set document ''_id'' (VStr (uuid e)) else document);
          doc2 = obj_set doc1 ''_createdAt'' (VStr (now e 0))
      in obj_set doc2 ''_updatedAt'' (VStr (now e 1)))"

definition Collection_insert :: "host \<Rightarrow> env \<Rightarrow> string \<Rightarrow> obj \<Rightarrow> Database \<Rightarrow> (error + obj) \<times> Database" where
  "Collection_insert h e cname document db =
     (let doc = stamp_document e document;
          db1 = set_documents cname (AList.update (obj_get doc ''_id'') doc (documents db cname)) db
      in case updateIndexes h cname doc OpInsert None (indexes db1) of
           (Some err, ixs) \<Rightarrow> (Inl err, db1\<lparr>indexes := ixs\<rparr>)
         | (None, ixs) \<Rightarrow> (Inr doc, saveCollection e cname (db1\<lparr>indexes := ixs\<rparr>)))"

text \<open>\<open>insertMany\<close>: one \<open>insert\<close> after the other; the first failure ends the batch.\<close>

fun Collection_insertMany :: "host \<Rightarrow> string \<Rightarrow> (env \<times> obj) list \<Rightarrow> Database \<Rightarrow> (error + obj list) \<times> Database" where
  "Collection_insertMany h cname [] db = (Inr [], db)"
| "Collection_insertMany h cname (ed # rest) db =
     (case Collection_insert h (fst ed) cname (snd ed) db of
        (Inl err, db1) \<Rightarrow> (Inl err, db1)
      | (Inr doc, db1) \<Rightarrow>
          (case Collection_insertMany h cname rest db1 of
             (Inl err, db2) \<Rightarrow> (Inl err, db2)
           | (Inr results, db2) \<Rightarrow> (Inr (doc # results), db2)))"

subsection \<open>Queries\<close>

text \<open>
  \<open>handleComparisonOperators\<close>: the loop over the operators of a query object; the
  first operator that fails answers \<open>false\<close>, an unknown operator is passed over.
\<close>

fun handleComparisonOperators :: "host \<Rightarrow> jsval \<Rightarrow> (string \<times> jsval) list \<Rightarrow> error + bool" where
  "handleComparisonOperators h docValue [] = Inr True"
| "handleComparisonOperators h docValue (ov # rest) =
     (if fst ov = ''$eq'' then
        (if \<not> strict_equal docValue (snd ov) then Inr False
         else handleComparisonOperators h docValue rest)
      else if fst ov = ''$ne'' then
        (if strict_equal docValue (snd ov) then Inr False
         else handleComparisonOperators h docValue rest)
      else if fst ov = ''$gt'' then
        (if js_le h docValue (snd ov) then Inr False
         else handleComparisonOperators h docValue rest)
      else if fst ov = ''$gte'' then
        (if js_lt h docValue (snd ov) then Inr False
         else handleComparisonOperators h docValue rest)
      else if fst ov = ''$lt'' then
        (if js_ge h docValue (snd ov) then Inr False
         else handleComparisonOperators h docValue rest)
      else if fst ov = ''$lte'' then
        (if js_gt h docValue (snd ov) then Inr False
         else handleComparisonOperators h docValue rest)
      else if fst ov = ''$in'' then
        (case js_includes h (snd ov) docValue of
           Inl err \<Rightarrow> Inl err
         | Inr b \<Rightarrow> if \<not> b then Inr False else handleComparisonOperators h docValue rest)
      else if fst ov = ''$nin'' then
        (case js_includes h (snd ov) docValue of
           Inl err \<Rightarrow> Inl err
         | Inr b \<Rightarrow> if b then Inr False else handleComparisonOperators h docValue rest)
      else if fst ov = ''$regex'' then
        (case regex_test h (snd ov) docValue of
           None \<Rightarrow> Inl SyntaxError
         | Some b \<Rightarrow> if \<not> b then Inr False else handleComparisonOperators h docValue rest)
      else handleComparisonOperators h docValue rest)"

text \<open>
  \<open>compareValues\<close>. The model has no regular-expression values, so the \<open>instanceof
  RegExp\<close> branch is never taken.
\<close>

definition compareValues :: "host \<Rightarrow> jsval \<Rightarrow> jsval \<Rightarrow> error + bool" where
  "compareValues h docValue queryValue =
     (if queryValue = VUndef \<or> queryValue = VNull then Inr (strict_equal docValue queryValue)
      else (case queryValue of
              VObj queryObj \<Rightarrow> handleComparisonOperators h docValue queryObj
            | VArr xs \<Rightarrow> Inr (array_includes xs docValue)
            | _ \<Rightarrow> Inr (strict_equal docValue queryValue)))"

text \<open>The first loop of \<open>matchesQuery\<close>: every key without \<open>$\<close> must compare true.\<close>

fun fields_match :: "host \<Rightarrow> obj \<Rightarrow> (string \<times> jsval) list \<Rightarrow> error + bool" where
  "fields_match h document [] = Inr True"
| "fields_match h document (kv # rest) =
     (if starts_with_dollar (fst kv) then fields_match h document rest
      else (case compareValues h (obj_get document (fst kv)) (snd kv) of
              Inl err \<Rightarrow> Inl err
            | Inr b \<Rightarrow> if \<not> b then Inr False else fields_match h document rest))"

lemma size_map_of_less:
  "map_of kvs k = Some v \<Longrightarrow> size v < size (VObj kvs)"
  by (induction kvs) (auto split: if_splits)

lemma size_member_less:
  "x \<in> set xs \<Longrightarrow> size x < size (VArr xs)"
  by (induction xs) auto

lemma size_nth_less:
  "i < length xs \<Longrightarrow> size (xs ! i) < size (VArr xs)"
  by (rule size_member_less) simp

lemma js_get_array_size [termination_simp]:
  "js_get q k = VArr cs \<Longrightarrow> size_list size cs < size q"
proof (cases q)
  case (VObj kvs)
  assume "js_get q k = VArr cs"
  with VObj have "map_of kvs k = Some (VArr cs)"
    by (auto simp: obj_get_def split: option.splits)
  from size_map_of_less [OF this] VObj show ?thesis by simp
next
  case (VArr xs)
  assume g: "js_get q k = VArr cs"
  with VArr obtain i where "i < length xs" "xs ! i = VArr cs"
    by (auto split: if_splits option.splits)
  with size_nth_less [of i xs] VArr show ?thesis by simp
qed (auto split: if_splits option.splits)

text \<open>
  \<open>matchesQuery\<close> and \<open>handleQueryOperators\<close>, with the callbacks of \<open>every\<close> and
  \<open>some\<close> as loops over the conditions. \<open>$and\<close> shadows \<open>$or\<close>, which shadows \<open>$nor\<close>;
  a combinator whose value is truthy but no array has no \<open>every\<close>/\<open>some\<close> method.
\<close>

function matchesQuery :: "host \<Rightarrow> obj \<Rightarrow> jsval \<Rightarrow> error + bool"
  and handleQueryOperators :: "host \<Rightarrow> obj \<Rightarrow> jsval \<Rightarrow> error + bool"
  and every_matches :: "host \<Rightarrow> obj \<Rightarrow> jsval list \<Rightarrow> error + bool"
  and some_matches :: "host \<Rightarrow> obj \<Rightarrow> jsval list \<Rightarrow> error + bool" where
  "matchesQuery h document query =
     (case object_entries query of
        Inl err \<Rightarrow> Inl err
      | Inr entries \<Rightarrow>
          (case fields_match h document entries of
             Inl err \<Rightarrow> Inl err
           | Inr b \<Rightarrow> if \<not> b then Inr False else handleQueryOperators h document query))"
| "handleQueryOperators h document query =
     (if truthy (js_get query ''$and'') then
        (case js_get query ''$and'' of
           VArr conditions \<Rightarrow> every_matches h document conditions
         | _ \<Rightarrow> Inl TypeError)
      else if truthy (js_get query ''$or'') then
        (case js_get query ''$or'' of
           VArr conditions \<Rightarrow> some_matches h document conditions
         | _ \<Rightarrow> Inl TypeError)
      else if truthy (js_get query ''$nor'') then
        (case js_get query ''$nor'' of
           VArr conditions \<Rightarrow>
             (case some_matches h document conditions of
                Inl err \<Rightarrow> Inl err
              | Inr b \<Rightarrow> Inr (\<not> b))
         | _ \<Rightarrow> Inl TypeError)
      else Inr True)"
| "every_matches h document [] = Inr True"
| "every_matches h document (condition # rest) =
     (case matchesQuery h document condition of
        Inl err \<Rightarrow> Inl err
      | Inr b \<Rightarrow> if \<not> b then Inr False else every_matches h document rest)"
| "some_matches h document [] = Inr False"
| "some_matches h document (condition # rest) =
     (case matchesQuery h document condition of
        Inl err \<Rightarrow> Inl err
      | Inr b \<Rightarrow> if b then Inr True else some_matches h document rest)"
  by pat_completeness auto
termination
  by (relation "measure (\<lambda>x. case x of
        Inl (Inl (h, d, q)) \<Rightarrow> 2 * size q + 1
      | Inl (Inr (h, d, q)) \<Rightarrow> 2 * size q
      | Inr (Inl (h, d, cs)) \<Rightarrow> 2 * size_list size cs + 1
      | Inr (Inr (h, d, cs)) \<Rightarrow> 2 * size_list size cs + 1)")
     (auto dest: js_get_array_size)

subsection \<open>Collection.find\<close>

text \<open>\<open>applyQuery\<close>: \<open>filter\<close> with \<open>matchesQuery\<close>; an exception ends the filter.\<close>

fun applyQuery :: "host \<Rightarrow> obj list \<Rightarrow> jsval \<Rightarrow> error + obj list" where
  "applyQuery h [] query = Inr []"
| "applyQuery h (doc # rest) query =
     (case matchesQuery h doc query of
        Inl err \<Rightarrow> Inl err
      | Inr b \<Rightarrow>
          (case applyQuery h rest query of
             Inl err \<Rightarrow> Inl err
           | Inr ds \<Rightarrow> Inr (if b then doc # ds else ds)))"

text \<open>
  \<open>applySorting\<close>: the comparator walks the sort keys in order. The sort is the
  stable one; for a comparator that is no consistent order (mixed types) the host
  leaves the result to the implementation, and the model is one such result. The
  comparator reads \<open>Object.entries(sort)\<close>, which throws on \<open>null\<close> and \<open>undefined\<close>;
  it is called once there are two documents to compare.
\<close>

fun sort_compare :: "host \<Rightarrow> (string \<times> jsval) list \<Rightarrow> obj \<Rightarrow> obj \<Rightarrow> int" where
  "sort_compare h [] a b = 0"
| "sort_compare h (fd # rest) a b =
     (let aVal = obj_get a (fst fd);
          bVal = obj_get b (fst fd);
          sortOrder = (if strict_equal (snd fd) (VNum 1) \<or> strict_equal (snd fd) (VStr ''asc'')
                       then 1 else - 1)
      in if js_lt h aVal bVal then - 1 * sortOrder
         else if js_gt h aVal bVal then 1 * sortOrder
         else sort_compare h rest a b)"

fun stable_insert :: "(obj \<Rightarrow> obj \<Rightarrow> int) \<Rightarrow> obj \<Rightarrow> obj list \<Rightarrow> obj list" where
  "stable_insert cmp x [] = [x]"
| "stable_insert cmp x (y # ys) = (if cmp x y \<le> 0 then x # y # ys else y # stable_insert cmp x ys)"

definition applySorting :: "host \<Rightarrow> obj list \<Rightarrow> jsval \<Rightarrow> error + obj list" where
  "applySorting h docs sort_spec =
     (if (sort_spec = VUndef \<or> sort_spec = VNull) \<and> 2 \<le> length docs then Inl TypeError
      else Inr (foldr (stable_insert (sort_compare h (own_entries sort_spec))) docs []))"

text \<open>
  \<open>Array.prototype.slice\<close>: an index is truncated to an integer, a negative one counts
  from the end, and both ends are clamped to the array.
\<close>

definition relative_index :: "host \<Rightarrow> nat \<Rightarrow> jsval \<Rightarrow> nat" where
  "relative_index h len v =
     (case js_to_number h v of
        VNum x \<Rightarrow>
          (let k = (if 0 \<le> x then \<lfloor>x\<rfloor> else \<lceil>x\<rceil>)
           in if k < 0 then nat (max (int len + k) 0) else nat (min k (int len)))
      | VPosInf \<Rightarrow> len
      | _ \<Rightarrow> 0)"

definition js_slice :: "host \<Rightarrow> 'a list \<Rightarrow> jsval \<Rightarrow> jsval \<Rightarrow> 'a list" where
  "js_slice h xs start stop =
     (let len = length xs;
          k = relative_index h len start;
          final = (if stop = VUndef then len else relative_index h len stop)
      in take (final - k) (drop k xs))"

record find_options =
  opt_sort :: jsval
  opt_limit :: jsval
  opt_skip :: jsval

definition no_options :: find_options where
  "no_options = \<lparr>opt_sort = VUndef, opt_limit = VUndef, opt_skip = VUndef\<rparr>"

definition applyPagination :: "host \<Rightarrow> obj list \<Rightarrow> find_options \<Rightarrow> obj list" where
  "applyPagination h docs options =
     (let skip = js_or (opt_skip options) (VNum 0);
          limit = js_or (opt_limit options) (VNum (of_nat (length docs)))
      in js_slice h docs skip (js_add h skip limit))"

definition Collection_find :: "host \<Rightarrow> string \<Rightarrow> obj \<Rightarrow> find_options \<Rightarrow> Database \<Rightarrow> error + obj list" where
  "Collection_find h cname query options db =
     (case (if 0 < length query then applyQuery h (map snd (documents db cname)) (VObj query)
            else Inr (map snd (documents db cname))) of
        Inl err \<Rightarrow> Inl err
      | Inr results \<Rightarrow>
          (case (if truthy (opt_sort options) then applySorting h results (opt_sort options)
                 else Inr results) of
             Inl err \<Rightarrow> Inl err
           | Inr ordered \<Rightarrow>
               Inr (if truthy (opt_limit options) \<or> truthy (opt_skip options)
                    then applyPagination h ordered options else ordered)))"

subsection \<open>Collection.update\<close>

text \<open>
  \<open>applyUpdateOperations\<close>: the loop over the entries of the update specification.
  The result is the error thrown, if any (\<open>Object.keys\<close> of \<open>null\<close>), and the document
  as the call leaves it.
\<close>

definition inc_field :: "host \<Rightarrow> jsval \<Rightarrow> obj \<Rightarrow> string \<Rightarrow> obj" where
  "inc_field h vals document key =
     obj_set document key (js_add h (js_or (obj_get document key) (VNum 0)) (js_get vals key))"

definition push_field :: "jsval \<Rightarrow> obj \<Rightarrow> string \<Rightarrow> obj" where
  "push_field vals document key =
     (let d1 = (if \<not> is_array (obj_get document key) then obj_set document key (VArr [])
                else document)
      in obj_set d1 key (array_push (obj_get d1 key) (js_get vals key)))"

fun applyUpdateOperations :: "host \<Rightarrow> obj \<Rightarrow> (string \<times> jsval) list \<Rightarrow> error option \<times> obj" where
  "applyUpdateOperations h document [] = (None, document)"
| "applyUpdateOperations h document (ov # rest) =
     (if starts_with_dollar (fst ov) then
        (if fst ov = ''$set'' then
           applyUpdateOperations h (object_assign document (snd ov)) rest
         else if fst ov = ''$unset'' then
           (case object_keys (snd ov) of
              Inl err \<Rightarrow> (Some err, document)
            | Inr ks \<Rightarrow> applyUpdateOperations h (foldl obj_delete document ks) rest)
         else if fst ov = ''$inc'' then
           (case object_keys (snd ov) of
              Inl err \<Rightarrow> (Some err, document)
            | Inr ks \<Rightarrow> applyUpdateOperations h (foldl (inc_field h (snd ov)) document ks) rest)
         else if fst ov = ''$push'' then
           (case object_keys (snd ov) of
              Inl err \<Rightarrow> (Some err, document)
            | Inr ks \<Rightarrow> applyUpdateOperations h (foldl (push_field (snd ov)) document ks) rest)
         else applyUpdateOperations h document rest)
      else if fst ov = ''_id'' then applyUpdateOperations h document rest
      else applyUpdateOperations h (obj_set document (fst ov) (snd ov)) rest)"

record update_options =
  upsert :: bool

record update_result =
  matchedCount :: nat
  modifiedCount :: nat
  upsertedCount :: "nat option"

text \<open>
  Sharing inside \<open>update\<close>. The loop body makes three objects hold one array: the
  document, \<open>originalDoc\<close> (\<open>{ ...doc }\<close>, a shallow copy, so every value of the
  document is also the value of the copy), and the update specification (\<open>$set\<close> and a
  bare key assign the specification's own values to the document). \<open>$push\<close> appends to
  the array in place, and whoever holds it sees the new element. So the operators are
  run once more with the holders written out: for every key of the document it is
  recorded whose value the document holds there, the copy's (\<open>ByOriginal\<close>) or the
  specification's, at an operator and, for \<open>$set\<close>, a key below it (\<open>BySpec\<close>); a key
  that is not recorded holds a value of the document's own. The documents found and
  the specification are taken to share nothing when the call begins.
\<close>

datatype holder = ByOriginal | BySpec string "string option"

record run_state =
  run_doc :: obj
  run_original :: obj
  run_update :: obj
  run_held :: "(string \<times> holder) list"

text \<open>The state after \<open>const originalDoc = { ...doc }\<close>.\<close>

definition start_run :: "obj \<Rightarrow> obj \<Rightarrow> run_state" where
  "start_run doc upd =
     \<lparr>run_doc = doc, run_original = doc, run_update = upd,
      run_held = map (\<lambda>kv. (fst kv, ByOriginal)) doc\<rparr>"

text \<open>The value the specification holds at a place, and its replacement.\<close>

definition slot_get :: "obj \<Rightarrow> string \<Rightarrow> string option \<Rightarrow> jsval" where
  "slot_get upd operator inner =
     (case inner of
        None \<Rightarrow> obj_get upd operator
      | Some k \<Rightarrow> js_get (obj_get upd operator) k)"

definition slot_set :: "obj \<Rightarrow> string \<Rightarrow> string option \<Rightarrow> jsval \<Rightarrow> obj" where
  "slot_set upd operator inner v =
     (case inner of
        None \<Rightarrow> obj_set upd operator v
      | Some k \<Rightarrow>
          (case obj_get upd operator of
             VObj kvs \<Rightarrow> obj_set upd operator (VObj (obj_set kvs k v))
           | VArr xs \<Rightarrow>
               (case array_index k of
                  Some i \<Rightarrow> (if i < length xs then obj_set upd operator (VArr (xs[i := v])) else upd)
                | None \<Rightarrow> upd)
           | _ \<Rightarrow> upd))"

text \<open>
  One key of \<open>$push\<close>. A field that is no array gets a new array of the document's
  own; the element is appended, and the holder of the array gets the new content too.
\<close>

definition push_shared :: "jsval \<Rightarrow> run_state \<Rightarrow> string \<Rightarrow> run_state" where
  "push_shared vals r key =
     (let held = (if \<not> is_array (obj_get (run_doc r) key) then AList.delete key (run_held r)
                  else run_held r);
          doc1 = push_field vals (run_doc r) key;
          arr = obj_get doc1 key
      in case map_of held key of
           None \<Rightarrow> r\<lparr>run_doc := doc1, run_held := held\<rparr>
         | Some ByOriginal \<Rightarrow>
             r\<lparr>run_doc := doc1, run_held := held,
               run_original := obj_set (run_original r) key arr\<rparr>
         | Some (BySpec operator inner) \<Rightarrow>
             r\<lparr>run_doc := doc1, run_held := held,
               run_update := slot_set (run_update r) operator inner arr\<rparr>)"

definition release_keys :: "string list \<Rightarrow> (string \<times> holder) list \<Rightarrow> (string \<times> holder) list" where
  "release_keys ks held = foldl (\<lambda>hs k. AList.delete k hs) held ks"

definition take_from_set :: "jsval \<Rightarrow> (string \<times> holder) list \<Rightarrow> (string \<times> holder) list" where
  "take_from_set vals held =
     foldl (\<lambda>hs kv. AList.update (fst kv) (BySpec ''$set'' (Some (fst kv))) hs) held (own_entries vals)"

text \<open>
  \<open>applyUpdateOperations\<close> with the holders: the document is changed as above, branch
  by branch; an assignment or a \<open>delete\<close> ends what the key held before.
\<close>

fun applyUpdateOperations_shared :: "host \<Rightarrow> run_state \<Rightarrow> (string \<times> jsval) list \<Rightarrow> error option \<times> run_state" where
  "applyUpdateOperations_shared h r [] = (None, r)"
| "applyUpdateOperations_shared h r (ov # rest) =
     (if starts_with_dollar (fst ov) then
        (if fst ov = ''$set'' then
           applyUpdateOperations_shared h
             (r\<lparr>run_doc := object_assign (run_doc r) (snd ov),
                run_held := take_from_set (snd ov) (run_held r)\<rparr>) rest
         else if fst ov = ''$unset'' then
           (case object_keys (snd ov) of
              Inl err \<Rightarrow> (Some err, r)
            | Inr ks \<Rightarrow>
                applyUpdateOperations_shared h
                  (r\<lparr>run_doc := foldl obj_delete (run_doc r) ks,
                     run_held := release_keys ks (run_held r)\<rparr>) rest)
         else if fst ov = ''$inc'' then
           (case object_keys (snd ov) of
              Inl err \<Rightarrow> (Some err, r)
            | Inr ks \<Rightarrow>
                applyUpdateOperations_shared h
                  (r\<lparr>run_doc := foldl (inc_field h (snd ov)) (run_doc r) ks,
                     run_held := release_keys ks (run_held r)\<rparr>) rest)
         else if fst ov = ''$push'' then
           (case object_keys (snd ov) of
              Inl err \<Rightarrow> (Some err, r)
            | Inr ks \<Rightarrow> applyUpdateOperations_shared h (foldl (push_shared (snd ov)) r ks) rest)
         else applyUpdateOperations_shared h r rest)
      else if fst ov = ''_id'' then applyUpdateOperations_shared h r rest
      else applyUpdateOperations_shared h
             (r\<lparr>run_doc := obj_set (run_doc r) (fst ov) (snd ov),
                run_held := AList.update (fst ov) (BySpec (fst ov) None) (run_held r)\<rparr>) rest)"

text \<open>
  In the loop of \<open>update\<close>, \<open>doc\<close> is the stored object itself: what the body assigns to
  it shows in the Map entry that holds the object. Entries are told apart by content.
\<close>

definition store_mutated :: "(jsval \<times> obj) list \<Rightarrow> obj \<Rightarrow> obj \<Rightarrow> (jsval \<times> obj) list" where
  "store_mutated docs old new = map (\<lambda>kd. if snd kd = old then (fst kd, new) else kd) docs"

text \<open>
  A document updated earlier in the loop that holds values of the specification shows
  what these are now: a later iteration may have appended to them.
\<close>

definition refresh :: "obj \<Rightarrow> obj \<times> (string \<times> holder) list \<Rightarrow> obj \<times> (string \<times> holder) list" where
  "refresh upd dh =
     (foldl (\<lambda>d kh. case snd kh of
                       BySpec operator inner \<Rightarrow> obj_set d (fst kh) (slot_get upd operator inner)
                     | ByOriginal \<Rightarrow> d)
        (fst dh) (snd dh),
      snd dh)"

definition refresh_store :: "(jsval \<times> obj) list \<Rightarrow> (obj \<times> (string \<times> holder) list) list
      \<Rightarrow> (obj \<times> (string \<times> holder) list) list \<Rightarrow> (jsval \<times> obj) list" where
  "refresh_store docs before after =
     foldl (\<lambda>ds ba. store_mutated ds (fst (fst ba)) (fst (snd ba))) docs (zip before after)"

text \<open>
  The \<open>for\<close> loop of \<open>update\<close> and the code after it. \<open>n\<close> is \<open>documents.length\<close>, the
  number of matches; the upsert test stands inside the loop body, as in the source.
  \<open>upd\<close> is the specification as the iterations before have left it, \<open>processed\<close> the
  documents they have updated, each with what it holds of the specification.
  \<open>Index.update\<close> sees \<open>originalDoc\<close> as it is after the operators have run. After the
  call, documents that took an array from the specification still hold it together; the
  store returned has their contents.
\<close>

fun update_loop :: "host \<Rightarrow> env \<Rightarrow> string \<Rightarrow> obj \<Rightarrow> obj \<Rightarrow> update_options \<Rightarrow> nat \<Rightarrow> obj list \<Rightarrow> nat
      \<Rightarrow> (obj \<times> (string \<times> holder) list) list \<Rightarrow> Database \<Rightarrow> (error + update_result) \<times> Database" where
  "update_loop h e cname query upd options n [] updatedCount processed db =
     (Inr \<lparr>matchedCount = n, modifiedCount = updatedCount, upsertedCount = None\<rparr>,
      if 0 < updatedCount then saveCollection e cname db else db)"
| "update_loop h e cname query upd options n (doc # rest) updatedCount processed db =
     (if upsert options \<and> n = 0 then
        (case Collection_insert h e cname (spread2 query upd) db of
           (Inl err, db1) \<Rightarrow> (Inl err, db1)
         | (Inr inserted, db1) \<Rightarrow>
             (Inr \<lparr>matchedCount = 0, modifiedCount = 1, upsertedCount = Some 1\<rparr>, db1))
      else
        (case applyUpdateOperations_shared h (start_run doc upd) upd of
           (thrown, r) \<Rightarrow>
             (let processed1 = map (refresh (run_update r)) processed;
                  docs0 = refresh_store (documents db cname) processed processed1
              in case thrown of
                   Some err \<Rightarrow>
                     (Inl err, set_documents cname (store_mutated docs0 doc (run_doc r)) db)
                 | None \<Rightarrow>
                     (let originalDoc = run_original r;
                          doc2 = obj_set (run_doc r) ''_updatedAt'' (VStr (now e updatedCount));
                          held2 = AList.delete ''_updatedAt'' (run_held r);
                          docs1 = store_mutated docs0 doc doc2;
                          db1 = set_documents cname (AList.update (obj_get doc2 ''_id'') doc2 docs1) db
                      in case updateIndexes h cname doc2 OpUpdate (Some originalDoc) (indexes db1) of
                           (Some err, ixs) \<Rightarrow> (Inl err, db1\<lparr>indexes := ixs\<rparr>)
                         | (None, ixs) \<Rightarrow>
                             update_loop h e cname query (run_update r) options n rest
                               (updatedCount + 1) (processed1 @ [(doc2, held2)])
                               (db1\<lparr>indexes := ixs\<rparr>)))))"

definition Collection_update :: "host \<Rightarrow> env \<Rightarrow> string \<Rightarrow> obj \<Rightarrow> obj \<Rightarrow> update_options \<Rightarrow> Database
      \<Rightarrow> (error + update_result) \<times> Database" where
  "Collection_update h e cname query upd options db =
     (case Collection_find h cname query no_options db of
        Inl err \<Rightarrow> (Inl err, db)
      | Inr docs \<Rightarrow> update_loop h e cname query upd options (length docs) docs 0 [] db)"

text \<open>No index bound to the collection is unique: then no index update can throw.\<close>

definition no_unique_index :: "string \<Rightarrow> (string \<times> Index) list \<Rightarrow> bool" where
  "no_unique_index c ixs = list_all (\<lambda>ni. \<not> (ix_collection (snd ni) = c \<and> ix_unique (snd ni))) ixs"

section \<open>Aggregation\<close>

text \<open>\<open>getNestedValue\<close> of Database.js: a path that is no string gives \<open>undefined\<close>.\<close>

definition Database_getNestedValue :: "obj \<Rightarrow> jsval \<Rightarrow> jsval" where
  "Database_getNestedValue ob path =
     (case path of
        VStr p \<Rightarrow> foldl nested_step (VObj ob) (split_on CHR ''.'' p)
      | _ \<Rightarrow> VUndef)"

text \<open>
  \<open>applyAccumulator\<close>: the initialisation under \<open>!groupDoc[field]\<close>, then the switch on
  the operator. In the \<open>$avg\<close> branch the field is read as \<open>{sum, count}\<close> and then
  overwritten with the quotient.
\<close>

definition accumulator_init :: "obj \<Rightarrow> string \<Rightarrow> string \<Rightarrow> jsval \<Rightarrow> obj" where
  "accumulator_init groupDoc field operator v =
     (if \<not> truthy (obj_get groupDoc field) then
        (if operator = ''$sum'' then obj_set groupDoc field (VNum 0)
         else if operator = ''$avg'' then
           obj_set groupDoc field (VObj [(''sum'', VNum 0), (''count'', VNum 0)])
         else if operator = ''$min'' then
           obj_set groupDoc field (if v \<noteq> VUndef then v else VPosInf)
         else if operator = ''$max'' then
           obj_set groupDoc field (if v \<noteq> VUndef then v else VNegInf)
         else if operator = ''$push'' then obj_set groupDoc field (VArr [])
         else obj_set groupDoc field (VNum 0))
      else groupDoc)"

definition applyAccumulator :: "host \<Rightarrow> obj \<Rightarrow> string \<Rightarrow> string \<Rightarrow> jsval \<Rightarrow> obj" where
  "applyAccumulator h groupDoc field operator v =
     (let g = accumulator_init groupDoc field operator v;
          cur = obj_get g field
      in if operator = ''$sum'' then obj_set g field (js_add h cur (js_or v (VNum 0)))
         else if operator = ''$avg'' then
           (if typeof_object cur \<and> js_get cur ''sum'' \<noteq> VUndef then
              (let total = js_add h (js_get cur ''sum'') (js_or v (VNum 0));
                   count = num_add (js_to_number h (js_get cur ''count'')) (VNum 1)
               in obj_set g field (js_div h total count))
            else g)
         else if operator = ''$min'' then
           (if v \<noteq> VUndef \<and> js_lt h v cur then obj_set g field v else g)
         else if operator = ''$max'' then
           (if v \<noteq> VUndef \<and> js_gt h v cur then obj_set g field v else g)
         else if operator = ''$push'' then
           (if is_array cur then obj_set g field (array_push cur v) else g)
         else g)"

text \<open>\<open>getGroupKey\<close>\<close>

definition getGroupKey :: "host \<Rightarrow> obj \<Rightarrow> jsval \<Rightarrow> error + jsval" where
  "getGroupKey h doc idSpec =
     (case idSpec of
        VStr s \<Rightarrow> Inr (obj_get doc s)
      | VNull \<Rightarrow> Inr VNull
      | _ \<Rightarrow>
          (case object_entries idSpec of
             Inl err \<Rightarrow> Inl err
           | Inr entries \<Rightarrow>
               Inr (VStr (JSON_stringify h
                 (VObj (foldl (\<lambda>key af. obj_set key (fst af) (Database_getNestedValue doc (snd af)))
                          [] entries))))))"

text \<open>
  The inner loop of \<open>applyGroupStage\<close> over the entries of the group specification:
  \<open>[operator, fieldPath] = Object.entries(accumulator)[0]\<close> throws when the accumulator
  is \<open>null\<close>, \<open>undefined\<close> or has no entry; a field path that is no string is reported
  by a warning and the accumulator is not applied.
\<close>

fun accumulate :: "host \<Rightarrow> obj \<Rightarrow> obj \<Rightarrow> (string \<times> jsval) list \<Rightarrow> error + obj" where
  "accumulate h doc groupDoc [] = Inr groupDoc"
| "accumulate h doc groupDoc (fa # rest) =
     (if fst fa \<noteq> ''_id'' then
        (case object_entries (snd fa) of
           Inl err \<Rightarrow> Inl err
         | Inr [] \<Rightarrow> Inl TypeError
         | Inr (of_ # others) \<Rightarrow>
             (if is_string (snd of_) then
                accumulate h doc
                  (applyAccumulator h groupDoc (fst fa) (fst of_)
                     (Database_getNestedValue doc (snd of_)))
                  rest
              else accumulate h doc groupDoc rest))
      else accumulate h doc groupDoc rest)"

text \<open>
  The groups are a Map from the group key to the group document. A key that is an
  array or object is a key of its own (the field value of one document), so it finds
  no earlier group.
\<close>

fun first_index :: "jsval \<Rightarrow> (jsval \<times> obj) list \<Rightarrow> nat option" where
  "first_index key [] = None"
| "first_index key (kg # rest) =
     (if fst kg = key then Some 0
      else (case first_index key rest of None \<Rightarrow> None | Some i \<Rightarrow> Some (Suc i)))"

definition group_slot :: "(jsval \<times> obj) list \<Rightarrow> jsval \<Rightarrow> nat option" where
  "group_slot groups key = (if is_primitive key then first_index key groups else None)"

fun group_loop :: "host \<Rightarrow> jsval \<Rightarrow> obj list \<Rightarrow> (jsval \<times> obj) list \<Rightarrow> error + (jsval \<times> obj) list" where
  "group_loop h group_spec [] groups = Inr groups"
| "group_loop h group_spec (doc # rest) groups =
     (case getGroupKey h doc (js_get group_spec ''_id'') of
        Inl err \<Rightarrow> Inl err
      | Inr groupKey \<Rightarrow>
          (let groups1 = (if group_slot groups groupKey = None
                          then groups @ [(groupKey, [(''_id'', groupKey)])] else groups);
               i = (case group_slot groups groupKey of None \<Rightarrow> length groups | Some j \<Rightarrow> j)
           in case accumulate h doc (snd (groups1 ! i)) (own_entries group_spec) of
                Inl err \<Rightarrow> Inl err
              | Inr groupDoc \<Rightarrow> group_loop h group_spec rest (groups1[i := (groupKey, groupDoc)])))"

definition applyGroupStage :: "host \<Rightarrow> obj list \<Rightarrow> jsval \<Rightarrow> error + obj list" where
  "applyGroupStage h docs group_spec =
     (if group_spec = VUndef \<or> group_spec = VNull then Inl TypeError
      else (case group_loop h group_spec docs [] of
              Inl err \<Rightarrow> Inl err
            | Inr groups \<Rightarrow> Inr (map snd groups)))"

text \<open>
  \<open>applyProjectStage\<close> and \<open>evaluateProjectionExpression\<close>. \<open>join('')\<close> prints
  \<open>undefined\<close> and \<open>null\<close> as nothing.
\<close>

definition join_empty :: "host \<Rightarrow> jsval list \<Rightarrow> string" where
  "join_empty h vs = concat (map (\<lambda>v. if v = VUndef \<or> v = VNull then [] else js_to_string h v) vs)"

definition evaluateProjectionExpression :: "host \<Rightarrow> obj \<Rightarrow> jsval \<Rightarrow> error + jsval" where
  "evaluateProjectionExpression h doc expression =
     (if expression = VNull then Inl TypeError
      else if truthy (js_get expression ''$concat'') then
        (case js_get expression ''$concat'' of
           VArr paths \<Rightarrow> Inr (VStr (join_empty h (map (Database_getNestedValue doc) paths)))
         | _ \<Rightarrow> Inl TypeError)
      else Inr VNull)"

fun project_fields :: "host \<Rightarrow> obj \<Rightarrow> obj \<Rightarrow> (string \<times> jsval) list \<Rightarrow> error + obj" where
  "project_fields h doc projected [] = Inr projected"
| "project_fields h doc projected (fv # rest) =
     (if strict_equal (snd fv) (VNum 1) \<or> strict_equal (snd fv) (VBool True) then
        project_fields h doc
          (obj_set projected (fst fv) (Database_getNestedValue doc (VStr (fst fv)))) rest
      else if is_string (snd fv) then
        project_fields h doc
          (obj_set projected (fst fv) (Database_getNestedValue doc (snd fv))) rest
      else if typeof_object (snd fv) then
        (case evaluateProjectionExpression h doc (snd fv) of
           Inl err \<Rightarrow> Inl err
         | Inr v \<Rightarrow> project_fields h doc (obj_set projected (fst fv) v) rest)
      else project_fields h doc projected rest)"

fun applyProjectStage :: "host \<Rightarrow> obj list \<Rightarrow> jsval \<Rightarrow> error + obj list" where
  "applyProjectStage h [] projection = Inr []"
| "applyProjectStage h (doc # rest) projection =
     (case object_entries projection of
        Inl err \<Rightarrow> Inl err
      | Inr entries \<Rightarrow>
          (case project_fields h doc [] entries of
             Inl err \<Rightarrow> Inl err
           | Inr projected \<Rightarrow>
               (case applyProjectStage h rest projection of
                  Inl err \<Rightarrow> Inl err
                | Inr ps \<Rightarrow> Inr (projected # ps))))"

text \<open>
  \<open>aggregate\<close>: the stages run in order on the documents of the collection;
  \<open>[operator, value] = Object.entries(stage)[0]\<close> throws on a stage without an entry.
\<close>

fun run_stages :: "host \<Rightarrow> jsval list \<Rightarrow> obj list \<Rightarrow> error + obj list" where
  "run_stages h [] results = Inr results"
| "run_stages h (stage # rest) results =
     (case object_entries stage of
        Inl err \<Rightarrow> Inl err
      | Inr [] \<Rightarrow> Inl TypeError
      | Inr (ov # others) \<Rightarrow>
          (case (if fst ov = ''$match'' then applyQuery h results (snd ov)
                 else if fst ov = ''$group'' then applyGroupStage h results (snd ov)
                 else if fst ov = ''$sort'' then applySorting h results (snd ov)
                 else if fst ov = ''$limit'' then Inr (js_slice h results (VNum 0) (snd ov))
                 else if fst ov = ''$skip'' then Inr (js_slice h results (snd ov) VUndef)
                 else if fst ov = ''$project'' then applyProjectStage h results (snd ov)
                 else Inr results) of
             Inl err \<Rightarrow> Inl err
           | Inr results1 \<Rightarrow> run_stages h rest results1))"

definition Database_aggregate :: "host \<Rightarrow> string \<Rightarrow> jsval list \<Rightarrow> Database \<Rightarrow> error + obj list" where
  "Database_aggregate h collectionName pipeline db =
     run_stages h pipeline (map snd (documents db collectionName))"

section \<open>The write queue\<close>

text \<open>
  \<open>queueWrite\<close> and \<open>processWriteQueue\<close> are asynchronous functions of a
  single-threaded host: code runs without interruption up to an \<open>await\<close>, and other
  code may run while an awaited operation is pending. The only \<open>await\<close> that separates
  reads and writes of the queue is \<open>await operation()\<close> in the loop of
  \<open>processWriteQueue\<close>. So the queue moves in four kinds of atomic steps: a call of
  \<open>queueWrite\<close>; a call of \<open>processWriteQueue\<close> (by \<open>disconnect\<close>); an operation in
  flight settles, by success or by failure; the loop that awaited a settled operation
  resumes. Every queued operation is a call of \<open>saveCollection\<close>, a snapshot write.

  \<open>Database.createCollection\<close> calls \<open>saveCollection\<close> itself, without the queue; such a
  write begins and settles as two further steps that leave the queue alone.

  A write is an opaque value. Besides the two fields of the store, the state records
  the queued operations in flight, the number of loops due to resume, the direct writes
  in flight, and the histories of the operations enqueued and started.
\<close>

record 'w queue_state =
  writeQueue :: "'w list"
  isWriting :: bool
  executing :: "'w list"
  resuming :: nat
  direct :: "'w list"
  started :: "'w list"
  enqueued :: "'w list"

datatype 'w event =
    QueueWrite 'w
  | ProcessWriteQueue
  | Settle 'w
  | Resume
  | SaveCollection 'w
  | SettleDirect 'w

definition initial_queue :: "'w queue_state" where
  "initial_queue =
     \<lparr>writeQueue = [], isWriting = False, executing = [], resuming = 0, direct = [],
      started = [], enqueued = []\<rparr>"

text \<open>
  The test of the \<open>while\<close> loop and what follows it up to the next \<open>await\<close>: either
  the head of the queue is shifted and called, or the loop ends and the flag is cleared.
\<close>

definition loop_iteration :: "'w queue_state \<Rightarrow> 'w queue_state" where
  "loop_iteration s =
     (case writeQueue s of
        [] \<Rightarrow> s\<lparr>isWriting := False\<rparr>
      | w # rest \<Rightarrow>
          s\<lparr>writeQueue := rest, executing := executing s @ [w], started := started s @ [w]\<rparr>)"

definition processWriteQueue :: "'w queue_state \<Rightarrow> 'w queue_state" where
  "processWriteQueue s =
     (if isWriting s \<or> writeQueue s = [] then s
      else loop_iteration (s\<lparr>isWriting := True\<rparr>))"

definition queueWrite :: "'w \<Rightarrow> 'w queue_state \<Rightarrow> 'w queue_state" where
  "queueWrite w s =
     (let s1 = s\<lparr>writeQueue := writeQueue s @ [w], enqueued := enqueued s @ [w]\<rparr>
      in if \<not> isWriting s1 then processWriteQueue s1 else s1)"

text \<open>A step that is not enabled has no successor.\<close>

fun fire :: "'w event \<Rightarrow> 'w queue_state \<Rightarrow> 'w queue_state option" where
  "fire (QueueWrite w) s = Some (queueWrite w s)"
| "fire ProcessWriteQueue s = Some (processWriteQueue s)"
| "fire (Settle w) s =
     (if w \<in> set (executing s)
      then Some (s\<lparr>executing := remove1 w (executing s), resuming := resuming s + 1\<rparr>)
      else None)"
| "fire Resume s =
     (if 0 < resuming s then Some (loop_iteration (s\<lparr>resuming := resuming s - 1\<rparr>))
      else None)"
| "fire (SaveCollection w) s = Some (s\<lparr>direct := direct s @ [w]\<rparr>)"
| "fire (SettleDirect w) s =
     (if w \<in> set (direct s) then Some (s\<lparr>direct := remove1 w (direct s)\<rparr>) else None)"

fun run :: "'w event list \<Rightarrow> 'w queue_state \<Rightarrow> 'w queue_state option" where
  "run [] s = Some s"
| "run (ev # evs) s = (case fire ev s of None \<Rightarrow> None | Some s1 \<Rightarrow> run evs s1)"

text \<open>
  The invariant of the queue: the flag is set exactly while one operation is in flight
  or one loop is due to resume, a cleared flag means an empty queue, and the histories
  agree with the queue.
\<close>

definition queue_inv :: "'w queue_state \<Rightarrow> bool" where
  "queue_inv s =
     (length (executing s) + resuming s = (if isWriting s then 1 else 0) \<and>
      (isWriting s \<or> writeQueue s = []) \<and>
      started s @ writeQueue s = enqueued s)"

section \<open>Example data\<close>

text \<open>
  A host for the examples. Its \<open>JSON.stringify\<close> is exact on strings free of
  characters that need escaping and on booleans and \<open>null\<close>, the only values the
  examples serialise. Its other components are never consulted by the examples: these
  compare numbers with numbers and strings with strings only.
\<close>

definition example_stringify :: "jsval \<Rightarrow> string" where
  "example_stringify v =
     (case v of
        VStr s \<Rightarrow> [CHR 0x22] @ s @ [CHR 0x22]
      | VBool b \<Rightarrow> (if b then ''true'' else ''false'')
      | _ \<Rightarrow> ''null'')"

definition example_host :: host where
  "example_host =
     \<lparr>JSON_stringify = example_stringify,
      object_to_string = (\<lambda>v. ''[object Object]''),
      number_to_string = (\<lambda>v. ''NaN''),
      string_to_number = (\<lambda>s. VNaN),
      regex_test = (\<lambda>p v. Some False)\<rparr>"

text \<open>The index of \<open>createIndex(['email'], {unique: true})\<close> on \<open>users\<close>.\<close>

definition email_index :: "bool \<Rightarrow> (string \<times> jsval list) list \<Rightarrow> Index" where
  "email_index sp d =
     \<lparr>ix_name = ''users_email'', ix_collection = ''users'', ix_fields = [''email''],
      ix_unique = True, ix_sparse = sp, indexData = d\<rparr>"

definition john :: obj where
  "john = [(''_id'', VStr ''1''), (''name'', VStr ''John''),
           (''email'', VStr ''john@example.com'')]"

definition duplicate :: obj where
  "duplicate = [(''_id'', VStr ''2''), (''name'', VStr ''Duplicate''),
                (''email'', VStr ''john@example.com'')]"

definition anon1 :: obj where
  "anon1 = [(''_id'', VStr ''3''), (''name'', VStr ''Ann'')]"

definition anon2 :: obj where
  "anon2 = [(''_id'', VStr ''4''), (''name'', VStr ''Bob'')]"

definition john_key :: string where
  "john_key = example_stringify (VStr ''john@example.com'')"

text \<open>A clock that stands still, and a store without collections.\<close>

definition clock :: env where
  "clock = \<lparr>uuid = ''generated-id'', now = (\<lambda>n. ''2024-01-01T00:00:00.000Z''), write_ok = True\<rparr>"

definition empty_db :: Database where
  "empty_db = \<lparr>collections = [], indexes = [], files = []\<rparr>"



text \<open>Three users with ages 25, 30 and 18, and the pipeline of the aggregation example.\<close>

definition ages_db :: Database where
  "ages_db =
     \<lparr>collections = [(''users'',
        [(VStr ''a'', [(''_id'', VStr ''a''), (''age'', VNum 25)]),
         (VStr ''b'', [(''_id'', VStr ''b''), (''age'', VNum 30)]),
         (VStr ''c'', [(''_id'', VStr ''c''), (''age'', VNum 18)])])],
      indexes = [], files = []\<rparr>"

definition avg_pipeline :: "jsval list" where
  "avg_pipeline =
     [VObj [(''$match'', VObj [(''age'', VObj [(''$gte'', VNum 20)])])],
      VObj [(''$group'', VObj [(''_id'', VNull),
                               (''avg'', VObj [(''$avg'', VStr ''age'')]),
                               (''count'', VObj [(''$sum'', VNum 1)])])]]"


text \<open>
  Two users with a unique index on the array field \<open>tags\<close>, and a host whose
  \<open>JSON.stringify\<close> is written out for strings and arrays of strings.
\<close>

fun stringify_strings :: "jsval \<Rightarrow> string" where
  "stringify_strings (VStr s) = [CHR 0x22] @ s @ [CHR 0x22]"
| "stringify_strings (VArr xs) = ''['' @ join_parts '','' (map (\<lambda>x. Some (stringify_strings x)) xs) @ '']''"
| "stringify_strings v = ''null''"

definition tags_host :: host where
  "tags_host = example_host\<lparr>JSON_stringify := stringify_strings\<rparr>"

definition tags_index :: "bool \<Rightarrow> (string \<times> jsval list) list \<Rightarrow> Index" where
  "tags_index u d =
     \<lparr>ix_name = ''users_tags'', ix_collection = ''users'', ix_fields = [''tags''],
      ix_unique = u, ix_sparse = False, indexData = d\<rparr>"

definition tags_db :: Database where
  "tags_db =
     \<lparr>collections = [(''users'',
        [(VStr ''1'', [(''_id'', VStr ''1''), (''tags'', VArr [VStr ''a''])]),
         (VStr ''2'', [(''_id'', VStr ''2''), (''tags'', VArr [VStr ''a'', VStr ''b''])])])],
      indexes = [(''users_tags'',
         tags_index True [(stringify_strings (VArr [VStr ''a'']), [VStr ''1'']),
                          (stringify_strings (VArr [VStr ''a'', VStr ''b'']), [VStr ''2''])])],
      files = []\<rparr>"

section \<open>Properties of the index\<close>

lemma getIndexKey_indexData [simp]:
  "getIndexKey h (ix\<lparr>indexData := d\<rparr>) doc = getIndexKey h ix doc"
  by (simp add: getIndexKey_def keyParts_def)

lemma index_remove_single:
  "map_of d k = Some [i] \<Longrightarrow> index_remove k i d = AList.delete k d"
  by (simp add: index_remove_def set_delete_def update_conv' Let_def delete_update_same)

lemmas example_defs =
  example_host_def example_stringify_def email_index_def john_def duplicate_def
  anon1_def anon2_def john_key_def

lemmas index_defs =
  getIndexKey_def keyParts_def getNestedValue_def nested_step_def obj_get_def
  Index_update_def map_has_def index_add_def index_remove_def set_add_def set_delete_def

text \<open>
  A successful insert into a unique index files the document alone under its key.
\<close>

lemma unique_insert_files_single_id:
  assumes "ix_unique ix" and "getIndexKey h ix d = Some k"
      and "fst (Index_update h ix d OpInsert None) = None"
  shows "map_of (indexData (snd (Index_update h ix d OpInsert None))) k = Some [obj_get d ''_id'']"
  using assms
  by (auto simp: Index_update_def map_has_def index_add_def update_conv' set_add_def Let_def
      split: if_splits)

text \<open>
  Claim C5. In a unique index that holds document \<open>d1\<close> under the composite key
  \<open>k\<close>, inserting a second document \<open>d2\<close> with the same composite key throws the
  duplicate-key error and leaves the index as it was. Deleting \<open>d1\<close> removes the key
  entry (its id set became empty), and the insert of \<open>d2\<close> then succeeds and files
  \<open>d2\<close> under \<open>k\<close>.
\<close>

theorem unique_index_rejects_then_reuses:
  assumes "ix_unique ix"
      and "getIndexKey h ix d1 = Some k"
      and "getIndexKey h ix d2 = Some k"
      and "map_of (indexData ix) k = Some [obj_get d1 ''_id'']"
  shows "Index_update h ix d2 OpInsert None = (Some (DuplicateKey (ix_name ix)), ix) \<and>
         fst (Index_update h ix d1 OpDelete None) = None \<and>
         \<not> map_has (indexData (snd (Index_update h ix d1 OpDelete None))) k \<and>
         fst (Index_update h (snd (Index_update h ix d1 OpDelete None)) d2 OpInsert None) = None \<and>
         map_of (indexData (snd (Index_update h (snd (Index_update h ix d1 OpDelete None))
                                   d2 OpInsert None))) k
           = Some [obj_get d2 ''_id'']"
  using assms
  by (simp add: Index_update_def map_has_def index_remove_single delete_conv' index_add_def
      update_conv' set_add_def Let_def)

theorem unique_index_rejects_then_reuses_witness:
  "ix_unique (email_index False [(john_key, [VStr ''1''])]) \<and>
   getIndexKey example_host (email_index False [(john_key, [VStr ''1''])]) john = Some john_key \<and>
   getIndexKey example_host (email_index False [(john_key, [VStr ''1''])]) duplicate = Some john_key \<and>
   Index_update example_host (email_index False [(john_key, [VStr ''1''])]) duplicate OpInsert None
     = (Some (DuplicateKey ''users_email''), email_index False [(john_key, [VStr ''1''])]) \<and>
   Index_update example_host (email_index False [(john_key, [VStr ''1''])]) john OpDelete None
     = (None, email_index False []) \<and>
   Index_update example_host (email_index False []) duplicate OpInsert None
     = (None, email_index False [(john_key, [VStr ''2''])])"
  using unique_index_rejects_then_reuses
          [of "email_index False [(john_key, [VStr ''1''])]" example_host john john_key duplicate]
  by (simp add: example_defs index_defs)

text \<open>
  Claim C6. In a sparse index, a document one of whose indexed field paths resolves
  to \<open>undefined\<close> gets no key, and inserting it changes nothing in the index and throws
  nothing; so a second such document is inserted without a conflict as well, whether or
  not the index is unique.
\<close>

theorem sparse_index_skips_missing_field:
  assumes "ix_sparse ix"
      and "f1 \<in> set (ix_fields ix)" and "getNestedValue d1 f1 = VUndef"
      and "f2 \<in> set (ix_fields ix)" and "getNestedValue d2 f2 = VUndef"
  shows "getIndexKey h ix d1 = None \<and>
         getIndexKey h ix d2 = None \<and>
         Index_update h ix d1 OpInsert None = (None, ix) \<and>
         Index_update h (snd (Index_update h ix d1 OpInsert None)) d2 OpInsert None = (None, ix)"
proof -
  have k: "getIndexKey h ix d = None"
    if "f \<in> set (ix_fields ix)" "getNestedValue d f = VUndef" for d f
    using that assms(1) by (auto simp: getIndexKey_def keyParts_def list_ex_iff Let_def)
  show ?thesis
    using k [OF assms(2,3)] k [OF assms(4,5)] by (simp add: Index_update_def)
qed

theorem sparse_index_skips_missing_field_witness:
  "ix_sparse (email_index True []) \<and> ix_unique (email_index True []) \<and>
   ''email'' \<in> set (ix_fields (email_index True [])) \<and>
   getNestedValue anon1 ''email'' = VUndef \<and> getNestedValue anon2 ''email'' = VUndef \<and>
   Index_update example_host (email_index True []) anon1 OpInsert None
     = (None, email_index True []) \<and>
   Index_update example_host (snd (Index_update example_host (email_index True []) anon1 OpInsert None))
       anon2 OpInsert None
     = (None, email_index True [])"
  using sparse_index_skips_missing_field
          [of "email_index True []" "''email''" anon1 "''email''" anon2 example_host]
  by (simp add: example_defs index_defs)

section \<open>Properties of insert\<close>

lemma obj_get_set: "obj_get (obj_set ob k v) k' = (if k' = k then v else obj_get ob k')"
  by (simp add: obj_get_def obj_set_def update_conv')

lemma documents_set_documents [simp]:
  "documents (set_documents cname d db) cname = d"
  by (simp add: documents_def set_documents_def update_conv')

lemma indexes_set_documents [simp]: "indexes (set_documents cname d db) = indexes db"
  by (simp add: set_documents_def)

lemma files_set_documents [simp]: "files (set_documents cname d db) = files db"
  by (simp add: set_documents_def)

lemma documents_indexes_update [simp]: "documents (db\<lparr>indexes := ixs\<rparr>) cname = documents db cname"
  by (simp add: documents_def)

lemma documents_saveCollection [simp]: "documents (saveCollection e c db) cname = documents db cname"
  by (simp add: saveCollection_def documents_def split: option.splits)

lemma indexes_saveCollection [simp]: "indexes (saveCollection e c db) = indexes db"
  by (simp add: saveCollection_def split: option.splits)











section \<open>Properties of update\<close>

lemma list_all_update:
  "list_all P al \<Longrightarrow> P (k, v) \<Longrightarrow> list_all P (AList.update k v al)"
  by (induction al) auto

text \<open>
  The document a run with holders leaves, and the error it throws, are those of
  \<open>applyUpdateOperations\<close>.
\<close>

lemma push_shared_doc:
  "run_doc (push_shared vals r key) = push_field vals (run_doc r) key"
  by (simp add: push_shared_def Let_def split: option.splits holder.splits)

lemma foldl_push_shared_doc:
  "run_doc (foldl (push_shared vals) r ks) = foldl (push_field vals) (run_doc r) ks"
  by (induction ks arbitrary: r) (simp_all add: push_shared_doc)

lemma shared_run_document:
  "fst (applyUpdateOperations_shared h r entries) = fst (applyUpdateOperations h (run_doc r) entries) \<and>
   run_doc (snd (applyUpdateOperations_shared h r entries))
     = snd (applyUpdateOperations h (run_doc r) entries)"
  by (induction entries arbitrary: r)
     (auto simp: foldl_push_shared_doc split: sum.splits)

lemma update_loop_counts:
  assumes "n = c + length docs"
      and "update_loop h e cname query upd options n docs c processed db = (Inr res, db')"
  shows "matchedCount res = n \<and> modifiedCount res = n \<and> upsertedCount res = None"
  using assms
proof (induction docs arbitrary: c db upd processed)
  case Nil
  then show ?case by auto
next
  case (Cons doc rest)
  from Cons.prems(1) have n0: "n \<noteq> 0" and n1: "n = (c + 1) + length rest" by simp_all
  show ?case
    using Cons.prems(2) n0 Cons.IH [OF n1]
    by (auto simp: Let_def split: prod.splits option.splits)
qed



text \<open>
  \<open>$push\<close> changes the array in place, and the copy handed to the indexes holds the same
  array: both keys are computed from the new content, so the index entry stays under
  the old key, and a unique index that has the new key for another document raises no
  error. The call counts the document as modified.
\<close>

lemma push_in_place_keeps_index_entry:
  "Collection_update tags_host clock ''users'' [(''_id'', VStr ''1'')]
     [(''$push'', VObj [(''tags'', VStr ''b'')])] \<lparr>upsert = False\<rparr> tags_db
   = (Inr \<lparr>matchedCount = 1, modifiedCount = 1, upsertedCount = None\<rparr>,
      \<lparr>collections = [(''users'',
         [(VStr ''1'', [(''_id'', VStr ''1''), (''tags'', VArr [VStr ''a'', VStr ''b'']),
                        (''_updatedAt'', VStr (now clock 0))]),
          (VStr ''2'', [(''_id'', VStr ''2''), (''tags'', VArr [VStr ''a'', VStr ''b''])])])],
       indexes = indexes tags_db,
       files = [(''users'', VArr
         [VObj [(''_id'', VStr ''1''), (''tags'', VArr [VStr ''a'', VStr ''b'']),
                (''_updatedAt'', VStr (now clock 0))],
          VObj [(''_id'', VStr ''2''), (''tags'', VArr [VStr ''a'', VStr ''b''])]])]\<rparr>)"
  by code_simp

text \<open>
  \<open>$set\<close> binds the field to a new array, the copy keeps the old one, and the same
  change of content is refused by the unique index.
\<close>

lemma set_new_array_moves_index_entry:
  "fst (Collection_update tags_host clock ''users'' [(''_id'', VStr ''1'')]
          [(''$set'', VObj [(''tags'', VArr [VStr ''a'', VStr ''b''])])] \<lparr>upsert = False\<rparr> tags_db)
   = Inl (DuplicateKey ''users_tags'')"
  by code_simp

text \<open>
  An array of the update specification assigned by \<open>$set\<close> is held by every document
  updated in the call: each \<open>$push\<close> of a later round shows in the documents of the
  earlier rounds, while the index keeps the key of the round that made the entry.
\<close>

lemma set_array_is_shared_between_documents:
  "(case Collection_update tags_host clock ''users'' []
           [(''$set'', VObj [(''tags'', VArr [VStr ''x''])]), (''$push'', VObj [(''tags'', VStr ''a'')])]
           \<lparr>upsert = False\<rparr> (tags_db\<lparr>indexes := [(''users_tags'', tags_index False [])]\<rparr>)
    of (r, db') \<Rightarrow> (r, map (\<lambda>d. obj_get d ''tags'') (map snd (documents db' ''users'')),
                     map (\<lambda>ni. indexData (snd ni)) (indexes db')))
   = (Inr \<lparr>matchedCount = 2, modifiedCount = 2, upsertedCount = None\<rparr>,
      [VArr [VStr ''x'', VStr ''a'', VStr ''a''], VArr [VStr ''x'', VStr ''a'', VStr ''a'']],
      [[(stringify_strings (VArr [VStr ''x'', VStr ''a'']), [VStr ''1'']),
        (stringify_strings (VArr [VStr ''x'', VStr ''a'', VStr ''a'']), [VStr ''2''])]])"
  by code_simp

lemma Index_update_keeps_options:
  "ix_collection (snd (Index_update h ix d oper orig)) = ix_collection ix \<and>
   ix_unique (snd (Index_update h ix d oper orig)) = ix_unique ix"
  by (cases oper) (auto simp: Index_update_def Let_def split: option.splits)

lemma Index_update_not_unique:
  "\<not> ix_unique ix \<Longrightarrow> fst (Index_update h ix d oper orig) = None"
  by (cases oper) (auto simp: Index_update_def Let_def split: option.splits)

lemma updateIndexes_no_unique:
  assumes "no_unique_index c ixs"
  shows "fst (updateIndexes h c d oper orig ixs) = None \<and>
         no_unique_index c (snd (updateIndexes h c d oper orig ixs))"
  using assms
proof (induction ixs)
  case Nil
  then show ?case by (simp add: no_unique_index_def)
next
  case (Cons ni rest)
  then have rest: "fst (updateIndexes h c d oper orig rest) = None"
    "no_unique_index c (snd (updateIndexes h c d oper orig rest))"
    by (simp_all add: no_unique_index_def)
  show ?case
  proof (cases "ix_collection (snd ni) = c")
    case True
    with Cons.prems have nu: "\<not> ix_unique (snd ni)" by (simp add: no_unique_index_def)
    obtain r ix1 where iu: "Index_update h (snd ni) d oper orig = (r, ix1)"
      by (cases "Index_update h (snd ni) d oper orig")
    with Index_update_not_unique [OF nu, of h d oper orig] have r: "r = None" by simp
    from Index_update_keeps_options [of h "snd ni" d oper orig] iu nu
    have "\<not> ix_unique ix1" by simp
    with True iu r rest show ?thesis
      by (auto simp: no_unique_index_def split: prod.splits)
  next
    case False
    with rest show ?thesis by (auto simp: no_unique_index_def split: prod.splits)
  qed
qed

lemma applyUpdateOperations_total:
  assumes "list_all (\<lambda>ov. snd ov \<noteq> VUndef \<and> snd ov \<noteq> VNull) upd"
  shows "fst (applyUpdateOperations h document upd) = None"
  using assms
  by (induction upd arbitrary: document) (auto simp: object_keys_def)

lemma pushed_field_is_array:
  "is_array (obj_get (push_field vals document key) key)"
  by (cases "obj_get document key")
     (simp_all add: push_field_def Let_def obj_get_set is_array_def array_push_def)

lemma slot_set_keeps_arguments:
  assumes "list_all (\<lambda>ov. snd ov \<noteq> VUndef \<and> snd ov \<noteq> VNull) upd" and "is_array v"
  shows "list_all (\<lambda>ov. snd ov \<noteq> VUndef \<and> snd ov \<noteq> VNull) (slot_set upd operator inner v)"
  using assms
  by (auto simp: slot_set_def obj_set_def is_array_def intro!: list_all_update
      split: option.splits jsval.splits)

lemma push_shared_keeps_arguments:
  assumes "list_all (\<lambda>ov. snd ov \<noteq> VUndef \<and> snd ov \<noteq> VNull) (run_update r)"
  shows "list_all (\<lambda>ov. snd ov \<noteq> VUndef \<and> snd ov \<noteq> VNull) (run_update (push_shared vals r key))"
  using assms slot_set_keeps_arguments [OF assms pushed_field_is_array]
  by (simp add: push_shared_def Let_def split: option.splits holder.splits)

lemma foldl_push_shared_keeps_arguments:
  assumes "list_all (\<lambda>ov. snd ov \<noteq> VUndef \<and> snd ov \<noteq> VNull) (run_update r)"
  shows "list_all (\<lambda>ov. snd ov \<noteq> VUndef \<and> snd ov \<noteq> VNull)
           (run_update (foldl (push_shared vals) r ks))"
  using assms by (induction ks arbitrary: r) (simp_all add: push_shared_keeps_arguments)

lemma shared_run_keeps_arguments:
  assumes "list_all (\<lambda>ov. snd ov \<noteq> VUndef \<and> snd ov \<noteq> VNull) (run_update r)"
  shows "list_all (\<lambda>ov. snd ov \<noteq> VUndef \<and> snd ov \<noteq> VNull)
           (run_update (snd (applyUpdateOperations_shared h r entries)))"
  using assms
  by (induction entries arbitrary: r)
     (auto simp: foldl_push_shared_keeps_arguments split: sum.splits)

lemma update_loop_returns:
  assumes "n = c + length docs"
      and "list_all (\<lambda>ov. snd ov \<noteq> VUndef \<and> snd ov \<noteq> VNull) upd"
      and "no_unique_index cname (indexes db)"
  shows "\<exists>res db'. update_loop h e cname query upd options n docs c processed db = (Inr res, db')"
  using assms
proof (induction docs arbitrary: c db upd processed)
  case Nil
  then show ?case by simp
next
  case (Cons doc rest)
  from Cons.prems(1) have n0: "n \<noteq> 0" by simp
  obtain thrown r where a: "applyUpdateOperations_shared h (start_run doc upd) upd = (thrown, r)"
    by (cases "applyUpdateOperations_shared h (start_run doc upd) upd")
  have "thrown = None"
    using shared_run_document [of h "start_run doc upd" upd]
      applyUpdateOperations_total [OF Cons.prems(2), of h "run_doc (start_run doc upd)"] a
    by simp
  with a have a: "applyUpdateOperations_shared h (start_run doc upd) upd = (None, r)" by simp
  have ok: "list_all (\<lambda>ov. snd ov \<noteq> VUndef \<and> snd ov \<noteq> VNull) (run_update r)"
    using shared_run_keeps_arguments [of "start_run doc upd" h upd] Cons.prems(2) a
    by (simp add: start_run_def)
  let ?processed1 = "map (refresh (run_update r)) processed"
  let ?doc2 = "obj_set (run_doc r) ''_updatedAt'' (VStr (now e c))"
  let ?db1 = "set_documents cname
      (AList.update (obj_get ?doc2 ''_id'') ?doc2
         (store_mutated (refresh_store (documents db cname) processed ?processed1) doc ?doc2)) db"
  from Cons.prems(3) have nu: "no_unique_index cname (indexes ?db1)" by simp
  obtain ixs where
    u: "updateIndexes h cname ?doc2 OpUpdate (Some (run_original r)) (indexes ?db1) = (None, ixs)"
    and nu2: "no_unique_index cname ixs"
    using updateIndexes_no_unique [OF nu, of h ?doc2 OpUpdate "Some (run_original r)"]
    by (cases "updateIndexes h cname ?doc2 OpUpdate (Some (run_original r)) (indexes ?db1)") auto
  from Cons.prems(1) have "n = (c + 1) + length rest" by simp
  from Cons.IH [OF this ok, of "?db1\<lparr>indexes := ixs\<rparr>"
      "?processed1 @ [(?doc2, AList.delete ''_updatedAt'' (run_held r))]"] nu2
  obtain res db' where
    "update_loop h e cname query (run_update r) options n rest (c + 1)
       (?processed1 @ [(?doc2, AList.delete ''_updatedAt'' (run_held r))])
       (?db1\<lparr>indexes := ixs\<rparr>) = (Inr res, db')"
    by auto
  with n0 a u show ?case by (simp add: Let_def)
qed

text \<open>
  The call does return: when no unique index is bound to the collection and no
  operator of the update has \<open>null\<close> or \<open>undefined\<close> for its argument, nothing in the
  loop throws, and the result counts every match.
\<close>

theorem update_returns_counts:
  assumes "Collection_find h cname query no_options db = Inr docs"
      and "list_all (\<lambda>ov. snd ov \<noteq> VUndef \<and> snd ov \<noteq> VNull) upd"
      and "no_unique_index cname (indexes db)"
  shows "\<exists>res db'. Collection_update h e cname query upd options db = (Inr res, db') \<and>
                    matchedCount res = length docs \<and> modifiedCount res = length docs"
proof -
  from update_loop_returns [OF _ assms(2,3), of "length docs" 0 docs h e query options "[]"]
  obtain res db' where
    l: "update_loop h e cname query upd options (length docs) docs 0 [] db = (Inr res, db')"
    by auto
  from update_loop_counts [OF _ l] have "matchedCount res = length docs \<and> modifiedCount res = length docs"
    by simp
  with l assms(1) show ?thesis by (simp add: Collection_update_def)
qed

text \<open>
  An update that matches nothing returns zero counts and changes nothing, whatever the
  options say: the upsert test stands inside the loop over the matches, which has no
  iteration then.
\<close>

lemma update_without_matches:
  assumes "Collection_find h cname query no_options db = Inr []"
  shows "Collection_update h e cname query upd options db
           = (Inr \<lparr>matchedCount = 0, modifiedCount = 0, upsertedCount = None\<rparr>, db)"
  using assms by (simp add: Collection_update_def)

text \<open>
  Claim C1 fails on the code. The upsert of the specification's example, against an
  empty collection, returns \<open>{matchedCount: 0, modifiedCount: 0}\<close> without an
  \<open>upsertedCount\<close>, inserts nothing, and a later \<open>find({name: "Jane"})\<close> is empty.
\<close>

theorem upsert_is_never_reached:
  "Collection_update example_host clock ''users'' [(''name'', VStr ''Jane'')]
       [(''$set'', VObj [(''age'', VNum 30)])] \<lparr>upsert = True\<rparr> empty_db
     = (Inr \<lparr>matchedCount = 0, modifiedCount = 0, upsertedCount = None\<rparr>, empty_db) \<and>
   Collection_find example_host ''users'' [(''name'', VStr ''Jane'')] no_options empty_db = Inr []"
  by code_simp

text \<open>A bare \<open>_id\<close> key in the update specification is passed over.\<close>

lemma bare_id_key_is_skipped:
  "applyUpdateOperations h document ((''_id'', v) # rest) = applyUpdateOperations h document rest"
  by (simp add: starts_with_dollar_def)

text \<open>
  Claim C4 fails on the code. \<open>$set\<close> copies every property of its argument onto the
  document, \<open>_id\<close> included: the update \<open>{$set: {_id: "b"}}\<close> turns the \<open>_id\<close> of a
  document from \<open>"a"\<close> into \<open>"b"\<close>.
\<close>

theorem set_operator_overwrites_id:
  "applyUpdateOperations example_host [(''_id'', VStr ''a''), (''name'', VStr ''x'')]
       [(''$set'', VObj [(''_id'', VStr ''b'')])]
     = (None, [(''_id'', VStr ''b''), (''name'', VStr ''x'')])"
  by code_simp

section \<open>Properties of the aggregation\<close>

text \<open>
  Claim C3 fails on the code. On the users aged 25, 30 and 18 the pipeline of the
  specification's example returns one group whose \<open>avg\<close> is 25, the first matched age,
  and which has no \<open>count\<close>: after the first document the \<open>$avg\<close> field holds a number,
  no longer the \<open>{sum, count}\<close> pair, and \<open>{$sum: 1}\<close> is refused because 1 is no string.
\<close>

theorem group_average_stops_at_first_value:
  "Database_aggregate example_host ''users'' avg_pipeline ages_db
     = Inr [[(''_id'', VNull), (''avg'', VNum 25)]]"
  by code_simp

section \<open>Properties of the write queue\<close>

lemma queue_inv_initial: "queue_inv initial_queue"
  by (simp add: queue_inv_def initial_queue_def)

lemma queue_inv_fire:
  assumes "queue_inv s" and "fire ev s = Some s1"
  shows "queue_inv s1"
proof (cases ev)
  case (QueueWrite w)
  with assms show ?thesis
    by (auto simp: queue_inv_def queueWrite_def processWriteQueue_def loop_iteration_def Let_def
        split: list.splits if_splits)
next
  case ProcessWriteQueue
  with assms show ?thesis
    by (auto simp: queue_inv_def processWriteQueue_def loop_iteration_def
        split: list.splits if_splits)
next
  case (Settle w)
  with assms(2) have mem: "w \<in> set (executing s)"
    and s1: "s1 = s\<lparr>executing := remove1 w (executing s), resuming := resuming s + 1\<rparr>"
    by (auto split: if_splits)
  from mem have "1 \<le> length (executing s)" by (cases "executing s") auto
  with assms(1) have "length (executing s) = 1" "resuming s = 0" "isWriting s"
    by (auto simp: queue_inv_def split: if_splits)
  with s1 mem assms(1) show ?thesis by (simp add: queue_inv_def length_remove1)
next
  case Resume
  with assms(2) have pos: "0 < resuming s"
    and s1: "s1 = loop_iteration (s\<lparr>resuming := resuming s - 1\<rparr>)"
    by (auto split: if_splits)
  from assms(1) have total: "length (executing s) + resuming s = (if isWriting s then 1 else 0)"
    by (simp add: queue_inv_def)
  with pos have w: "isWriting s" by (cases "isWriting s") simp_all
  with total pos have "length (executing s) = 0" and "resuming s = 1" by arith+
  then have "executing s = []" and "resuming s = 1" by simp_all
  with w s1 assms(1) show ?thesis
    by (auto simp: queue_inv_def loop_iteration_def split: list.splits)
next
  case (SaveCollection w)
  with assms show ?thesis by (auto simp: queue_inv_def)
next
  case (SettleDirect w)
  with assms show ?thesis by (auto simp: queue_inv_def split: if_splits)
qed

lemma queue_inv_run:
  "queue_inv s \<Longrightarrow> run evs s = Some s1 \<Longrightarrow> queue_inv s1"
proof (induction evs arbitrary: s)
  case Nil
  then show ?case by simp
next
  case (Cons ev evs)
  then show ?case by (auto split: option.splits dest: queue_inv_fire)
qed

text \<open>
  Claim C8, as the code has it. In every state the queue reaches from its initial
  state, by any sequence of steps, at most one queued operation is in flight, and the
  operations started so far followed by those still queued are the operations
  enqueued, in the order of enqueueing: the queued operations start in
  first-in-first-out order, each after the one before it has settled. So no two
  snapshot writes issued through the queue overlap.
\<close>

theorem write_queue_serialises:
  assumes "run evs initial_queue = Some s"
  shows "length (executing s) \<le> 1 \<and> started s @ writeQueue s = enqueued s"
  using queue_inv_run [OF queue_inv_initial assms]
  by (simp add: queue_inv_def split: if_splits)

theorem write_queue_serialises_witness:
  "run [QueueWrite (1::nat), QueueWrite 2, QueueWrite 3, Settle 1, ProcessWriteQueue, Resume]
       initial_queue
     = Some \<lparr>writeQueue = [3], isWriting = True, executing = [2], resuming = 0, direct = [],
             started = [1, 2], enqueued = [1, 2, 3]\<rparr> \<and>
   length (executing \<lparr>writeQueue = [3::nat], isWriting = True, executing = [2], resuming = 0,
             direct = [], started = [1, 2], enqueued = [1, 2, 3]\<rparr>) \<le> 1"
proof -
  have r: "run [QueueWrite (1::nat), QueueWrite 2, QueueWrite 3, Settle 1, ProcessWriteQueue, Resume]
       initial_queue
     = Some \<lparr>writeQueue = [3], isWriting = True, executing = [2], resuming = 0, direct = [],
             started = [1, 2], enqueued = [1, 2, 3]\<rparr>"
    by (simp add: initial_queue_def queueWrite_def processWriteQueue_def loop_iteration_def)
  from write_queue_serialises [OF r] r show ?thesis by blast
qed

text \<open>
  The claim as stated fails for the snapshot writes of the store as a whole: while the
  queued write of an insert is in flight, \<open>createCollection\<close> starts a second write
  beside it.
\<close>

theorem snapshot_writes_overlap_counterexample:
  "run [QueueWrite (1::nat), SaveCollection 2] initial_queue
     = Some \<lparr>writeQueue = [], isWriting = True, executing = [1], resuming = 0, direct = [2],
             started = [1], enqueued = [1]\<rparr> \<and>
   length (executing \<lparr>writeQueue = [], isWriting = True, executing = [1::nat], resuming = 0,
             direct = [2], started = [1], enqueued = [1]\<rparr> @
           direct \<lparr>writeQueue = [], isWriting = True, executing = [1::nat], resuming = 0,
             direct = [2], started = [1], enqueued = [1]\<rparr>) = 2"
  by (simp add: initial_queue_def queueWrite_def processWriteQueue_def loop_iteration_def)

section \<open>Properties of the snapshots\<close>

lemma to_json_fixed:
  "json_value v \<Longrightarrow> to_json v = v"
  "json_values xs \<Longrightarrow> to_json_list xs = xs"
  "json_fields kvs \<Longrightarrow> to_json_fields kvs = kvs"
  by (induction v and xs and kvs rule: to_json_to_json_list_to_json_fields.induct) auto

lemma to_json_list_objects:
  "list_all json_fields ds \<Longrightarrow> to_json_list (map VObj ds) = map VObj ds"
  by (induction ds) (auto simp: to_json_fixed)

lemma update_fresh: "k \<notin> fst ` set al \<Longrightarrow> AList.update k v al = al @ [(k, v)]"
  by (induction al) auto

lemma load_docs:
  assumes "list_all (\<lambda>d. truthy (obj_get d ''_id'')) ds"
      and "distinct (map (\<lambda>d. obj_get d ''_id'') ds)"
      and "\<forall>d \<in> set ds. obj_get d ''_id'' \<notin> fst ` set acc"
  shows "foldl load_doc acc (map VObj ds) = acc @ map (\<lambda>d. (obj_get d ''_id'', d)) ds"
  using assms
proof (induction ds arbitrary: acc)
  case Nil
  then show ?case by simp
next
  case (Cons d ds)
  have step: "load_doc acc (VObj d) = acc @ [(obj_get d ''_id'', d)]"
    using Cons.prems by (simp add: load_doc_def update_fresh)
  have "foldl load_doc (acc @ [(obj_get d ''_id'', d)]) (map VObj ds)
          = (acc @ [(obj_get d ''_id'', d)]) @ map (\<lambda>d. (obj_get d ''_id'', d)) ds"
    using Cons.prems by (intro Cons.IH) (auto simp: image_iff)
  with step show ?case by simp
qed

lemma files_loadCollection [simp]: "files (loadCollection n db) = files db"
  by (simp add: loadCollection_def split: option.splits jsval.splits)

lemma documents_loadCollection_other:
  "n \<noteq> name \<Longrightarrow> documents (loadCollection n db) name = documents db name"
  by (simp add: loadCollection_def documents_def set_documents_def update_conv'
      split: option.splits jsval.splits)

lemma documents_loadCollection_same:
  "documents (loadCollection name db) name
     = (case map_of (files db) name of Some (VArr ds) \<Rightarrow> foldl load_doc [] ds | _ \<Rightarrow> [])"
  by (simp add: loadCollection_def split: option.splits jsval.splits)

lemma loadCollections_documents:
  assumes "name \<in> set names"
  shows "documents (foldl (\<lambda>d n. loadCollection n d) db names) name
           = (case map_of (files db) name of Some (VArr ds) \<Rightarrow> foldl load_doc [] ds | _ \<Rightarrow> [])"
  using assms
proof (induction names arbitrary: db rule: rev_induct)
  case Nil
  then show ?case by simp
next
  case (snoc n names)
  have f: "files (foldl (\<lambda>d n. loadCollection n d) db names) = files db" for db
    by (induction names arbitrary: db) simp_all
  show ?case
  proof (cases "n = name")
    case True
    then show ?thesis by (simp add: documents_loadCollection_same f)
  next
    case False
    with snoc show ?thesis by (simp add: documents_loadCollection_other)
  qed
qed



text \<open>
  A store that has not saved the collection gives a fresh store nothing to read: the
  documents come from the file alone.
\<close>

lemma nothing_saved_nothing_read:
  "documents (connect (files ages_db)) ''users'' = []"
  by code_simp

lemma json_fields_obj_set:
  "json_fields ob \<Longrightarrow> json_value v \<Longrightarrow> json_fields (obj_set ob k v)"
  unfolding obj_set_def by (induction ob) auto

lemma stamp_json: "json_fields d \<Longrightarrow> json_fields (stamp_document e d)"
  by (simp add: stamp_document_def Let_def json_fields_obj_set)

lemma stamp_truthy: "uuid e \<noteq> [] \<Longrightarrow> truthy (obj_get (stamp_document e d) ''_id'')"
  by (simp add: stamp_document_def Let_def obj_get_set)

lemma insert_documents:
  "documents (snd (Collection_insert h e name d db)) name
     = AList.update (obj_get (stamp_document e d) ''_id'') (stamp_document e d) (documents db name)"
  by (simp add: Collection_insert_def Let_def split: prod.splits option.splits)

lemma insert_stored_ok:
  assumes "stored_ok (documents db name)" and "json_fields d" and "uuid e \<noteq> []"
  shows "stored_ok (documents (snd (Collection_insert h e name d db)) name)"
  using assms
  by (simp add: insert_documents stored_ok_def distinct_update list_all_update stamp_json stamp_truthy)

lemma insert_synced:
  assumes "Collection_insert h e name d db = (Inr doc, db1)" and "write_ok e"
  shows "synced name db1"
proof -
  let ?doc = "stamp_document e d"
  let ?db1 = "set_documents name (AList.update (obj_get ?doc ''_id'') ?doc (documents db name)) db"
  obtain r ixs where u: "updateIndexes h name ?doc OpInsert None (indexes ?db1) = (r, ixs)"
    by (cases "updateIndexes h name ?doc OpInsert None (indexes ?db1)")
  with assms(1) have db1: "db1 = saveCollection e name (?db1\<lparr>indexes := ixs\<rparr>)"
    by (auto simp: Collection_insert_def Let_def split: option.splits)
  show ?thesis
    unfolding db1 using assms(2)
    by (simp add: synced_def saveCollection_def set_documents_def documents_def update_conv')
qed

lemma insertMany_result:
  assumes "Collection_insertMany h name eds db = (Inr rs, db1)"
      and "stored_ok (documents db name)"
      and "\<forall>ed \<in> set eds. json_fields (snd ed) \<and> write_ok (fst ed) \<and> uuid (fst ed) \<noteq> []"
  shows "stored_ok (documents db1 name) \<and> (eds \<noteq> [] \<longrightarrow> synced name db1)"
  using assms
proof (induction eds arbitrary: db rs)
  case Nil
  then show ?case by simp
next
  case (Cons ed rest)
  obtain r dbi where i: "Collection_insert h (fst ed) name (snd ed) db = (r, dbi)"
    by (cases "Collection_insert h (fst ed) name (snd ed) db")
  with Cons.prems(1) obtain doc where r: "r = Inr doc"
    by (cases r) auto
  obtain r2 db2 where m: "Collection_insertMany h name rest dbi = (r2, db2)"
    by (cases "Collection_insertMany h name rest dbi")
  with Cons.prems(1) i r obtain rs2 where r2: "r2 = Inr rs2" and db2: "db2 = db1"
    by (cases r2) auto
  have ok: "stored_ok (documents dbi name)"
    using insert_stored_ok [of db name "snd ed" "fst ed" h] Cons.prems(2,3) i by simp
  have sy: "synced name dbi"
    using insert_synced [of h "fst ed" name "snd ed" db doc dbi] i r Cons.prems(3) by simp
  from Cons.IH [of dbi rs2] m r2 db2 ok Cons.prems(3)
  have "stored_ok (documents db1 name) \<and> (rest \<noteq> [] \<longrightarrow> synced name db1)" by simp
  moreover have "rest = [] \<Longrightarrow> db1 = dbi" using m r2 db2 by simp
  ultimately show ?case using sy by auto
qed

lemma stored_ok_reload:
  assumes "stored_ok docs"
  shows "foldl load_doc [] (map (\<lambda>kd. VObj (snd kd)) docs) = docs"
proof -
  have t: "list_all (\<lambda>d. truthy (obj_get d ''_id'')) (map snd docs)"
    using assms by (auto simp: stored_ok_def list_all_iff)
  have same: "map (\<lambda>d. obj_get d ''_id'') (map snd docs) = map fst docs"
    using assms by (auto simp: stored_ok_def list_all_iff)
  have d: "distinct (map (\<lambda>d. obj_get d ''_id'') (map snd docs))"
    unfolding same using assms by (simp add: stored_ok_def)
  have "foldl load_doc [] (map VObj (map snd docs)) = [] @ map (\<lambda>d. (obj_get d ''_id'', d)) (map snd docs)"
    by (rule load_docs [OF t d]) simp
  also have "\<dots> = docs"
  proof -
    have "map ((\<lambda>d. (obj_get d ''_id'', d)) \<circ> snd) docs = docs"
    proof (rule map_idI)
      fix kd assume "kd \<in> set docs"
      with assms have "fst kd = obj_get (snd kd) ''_id''"
        by (simp add: stored_ok_def list_all_iff)
      then show "((\<lambda>d. (obj_get d ''_id'', d)) \<circ> snd) kd = kd" by (cases kd) simp
    qed
    then show ?thesis by simp
  qed
  finally show ?thesis by (simp add: comp_def)
qed

lemma stored_ok_json:
  "stored_ok docs \<Longrightarrow> to_json (VArr (map (\<lambda>kd. VObj (snd kd)) docs)) = VArr (map (\<lambda>kd. VObj (snd kd)) docs)"
  using to_json_list_objects [of "map snd docs"]
  by (simp add: stored_ok_def list_all_iff comp_def)

text \<open>
  The same through the interface: after a batch of inserts that all succeed, with
  every write succeeding, a fresh store connected to the files holds the documents
  the collection held, and \<open>find({})\<close> reads back the same sequence.
\<close>

theorem insert_reconnect_read_back:
  assumes "stored_ok (documents db name)"
      and "eds \<noteq> []"
      and "\<forall>ed \<in> set eds. json_fields (snd ed) \<and> write_ok (fst ed) \<and> uuid (fst ed) \<noteq> []"
      and "Collection_insertMany h name eds db = (Inr rs, db1)"
  shows "documents (connect (files db1)) name = documents db1 name \<and>
         Collection_find h name [] no_options (connect (files db1))
           = Collection_find h name [] no_options db1"
proof -
  from insertMany_result [OF assms(4,1,3)] assms(2)
  have ok: "stored_ok (documents db1 name)" and sy: "synced name db1" by simp_all
  from sy have f: "map_of (files db1) name = Some (VArr (map (\<lambda>kd. VObj (snd kd)) (documents db1 name)))"
    unfolding synced_def stored_ok_json [OF ok] .
  then have "name \<in> set (map fst (files db1))"
    by (metis map_of_eq_None_iff option.distinct(1) set_map)
  then have "documents (connect (files db1)) name
               = foldl load_doc [] (map (\<lambda>kd. VObj (snd kd)) (documents db1 name))"
    by (simp add: connect_def loadCollections_def loadCollections_documents f)
  with stored_ok_reload [OF ok] have d: "documents (connect (files db1)) name = documents db1 name"
    by simp
  then show ?thesis by (simp add: Collection_find_def)
qed

end
